theory Spec2Isabelle
  imports Complex_Main
begin

section \<open>Python values and errors\<close>

text \<open>
  Every exception the modelled code can raise is a value.  \<open>AssertionError\<close>,
  \<open>ZeroDivisionError\<close>, \<open>IndexError\<close> and \<open>AttributeError\<close> are raised by the
  Python of the repository itself; \<open>ValueError\<close> is what a Keras layer raises on a
  shape it cannot accept, \<open>InvalidArgumentError\<close> what a TensorFlow operation raises.
\<close>

datatype error =
    AssertionError
  | ZeroDivisionError
  | IndexError
  | AttributeError
  | ValueError
  | InvalidArgumentError

type_synonym 'a result = "error + 'a"

definition bindE :: "'a result \<Rightarrow> ('a \<Rightarrow> 'b result) \<Rightarrow> 'b result" where
  "bindE m f = (case m of Inl e \<Rightarrow> Inl e | Inr x \<Rightarrow> f x)"

text \<open>Python's \<open>a % b\<close> and \<open>a // b\<close> on integers: floor division, as \<open>mod\<close> and \<open>div\<close>
  on \<open>int\<close>, but a zero divisor raises.\<close>

definition py_mod :: "int \<Rightarrow> int \<Rightarrow> int result" where
  "py_mod a b = (if b = 0 then Inl ZeroDivisionError else Inr (a mod b))"

definition py_floordiv :: "int \<Rightarrow> int \<Rightarrow> int result" where
  "py_floordiv a b = (if b = 0 then Inl ZeroDivisionError else Inr (a div b))"

text \<open>\<open>xs[i]\<close> for a literal index \<open>i \<ge> 0\<close>.\<close>

definition py_getitem :: "'a list \<Rightarrow> nat \<Rightarrow> 'a result" where
  "py_getitem xs i = (if i < length xs then Inr (xs ! i) else Inl IndexError)"

text \<open>\<open>int(x)\<close> on a float truncates towards zero.\<close>

definition py_int :: "real \<Rightarrow> int" where
  "py_int x = (if 0 \<le> x then \<lfloor>x\<rfloor> else \<lceil>x\<rceil>)"

text \<open>\<open>n ** -.5\<close> on an integer \<open>n\<close>: zero raises; a positive \<open>n\<close> gives \<open>1 / sqrt n\<close>; a negative
  \<open>n\<close> gives Python's complex principal value \<open>- i / sqrt (- n)\<close>, so the result type is
  \<open>complex\<close>.\<close>

definition py_pow_neg_half :: "int \<Rightarrow> complex result" where
  "py_pow_neg_half n =
     (if n = 0 then Inl ZeroDivisionError
      else if 0 < n then Inr (complex_of_real (1 / sqrt (real_of_int n)))
      else Inr (Complex 0 (- (1 / sqrt (real_of_int (- n))))))"

text \<open>\<open>range(n)\<close>: empty for a negative \<open>n\<close>.\<close>

definition py_range :: "int \<Rightarrow> nat list" where
  "py_range n = [0..<nat n]"


section \<open>The tensor framework\<close>

text \<open>
  The repository is written against TensorFlow/Keras.  Floating-point values are not
  modelled: the code is embedded once, over an arbitrary type \<open>'t\<close> of tensors and a
  record of the framework's operations, and is then read either over any such record
  (statements about the data flow) or over \<open>shape_tf\<close> below, where a tensor is its shape.

  Python allocates a fresh object with fresh weights for each layer it constructs.  The
  model names each layer by the attribute path under which its owner stores it, so two
  layers with equal hyper-parameters stay distinct.
\<close>

datatype key = Attr string | Item nat

type_synonym path = "key list"

datatype layer =
    Dense path int bool
  | Dropout real
  | GELU
  | Conv2D path int int int
  | LayerNormalization path
  | Reshape "int list"

text \<open>
  \<open>Dense p units use_bias\<close>, \<open>Dropout rate\<close>, \<open>Conv2D p filters kernel_size strides\<close>,
  \<open>Reshape target_shape\<close>.  The record of operations:
  \<^item> \<open>layer_call l x\<close>: the Keras call \<open>l(x)\<close> of a framework layer;
  \<^item> \<open>tf_transpose x perm\<close>, \<open>tf_matmul a b transpose_b\<close>, \<open>tf_softmax x\<close> (axis \<open>-1\<close>),
    \<open>tf_sqrt\<close>, \<open>tf_reshape x shape\<close>, \<open>tf_broadcast_to x shape\<close>, \<open>tf_concat xs axis\<close>,
    \<open>layers_concatenate xs axis\<close>;
  \<^item> \<open>tf_cast x y\<close>: \<open>tf.cast(x, dtype=y.dtype)\<close>; \<open>tf_cast_int n y\<close> the same for a Python
    integer \<open>n\<close>;
  \<^item> \<open>op_add a b\<close>, \<open>op_truediv a b\<close>: \<open>a + b\<close>, \<open>a / b\<close> on tensors; \<open>op_mul_scalar a c\<close>:
    \<open>a * c\<close> for a Python number \<open>c\<close>;
  \<^item> \<open>getitem x i\<close>: \<open>x[i]\<close>; \<open>getitem_colon x i\<close>: \<open>x[:, i]\<close>;
  \<^item> \<open>tensor_shape x\<close>: \<open>x.shape\<close>;
  \<^item> \<open>add_weight p shape\<close>: the variable that \<open>self.add_weight(shape=..., ...)\<close> creates
    for the attribute at path \<open>p\<close>;
  \<^item> \<open>call_training\<close>: the \<open>training\<close> argument Keras passes to a layer called without one.
\<close>

record 't framework =
  layer_call :: "layer \<Rightarrow> 't \<Rightarrow> 't result"
  tf_transpose :: "'t \<Rightarrow> int list \<Rightarrow> 't result"
  tf_matmul :: "'t \<Rightarrow> 't \<Rightarrow> bool \<Rightarrow> 't result"
  tf_softmax :: "'t \<Rightarrow> 't result"
  tf_sqrt :: "'t \<Rightarrow> 't result"
  tf_reshape :: "'t \<Rightarrow> int list \<Rightarrow> 't result"
  tf_broadcast_to :: "'t \<Rightarrow> int list \<Rightarrow> 't result"
  tf_concat :: "'t list \<Rightarrow> int \<Rightarrow> 't result"
  layers_concatenate :: "'t list \<Rightarrow> int \<Rightarrow> 't result"
  tf_cast :: "'t \<Rightarrow> 't \<Rightarrow> 't result"
  tf_cast_int :: "int \<Rightarrow> 't \<Rightarrow> 't result"
  op_add :: "'t \<Rightarrow> 't \<Rightarrow> 't result"
  op_truediv :: "'t \<Rightarrow> 't \<Rightarrow> 't result"
  op_mul_scalar :: "'t \<Rightarrow> complex \<Rightarrow> 't result"
  getitem :: "'t \<Rightarrow> int \<Rightarrow> 't result"
  getitem_colon :: "'t \<Rightarrow> int \<Rightarrow> 't result"
  tensor_shape :: "'t \<Rightarrow> int list"
  add_weight :: "path \<Rightarrow> int list \<Rightarrow> 't result"
  call_training :: "bool option"


section \<open>The framework on shapes\<close>

text \<open>
  The shape rules of the framework's operations, from the framework's documentation:
  a tensor is the list of its dimensions.  These are the only definitions that do not
  come from the repository's own source.
\<close>

type_synonym shape = "int list"

text \<open>Keras \<open>Reshape\<close>: a negative entry of the target is the one dimension to infer.\<close>

definition fix_unknown_dimension :: "int list \<Rightarrow> int list \<Rightarrow> int list result" where
  "fix_unknown_dimension input_shape output_shape =
     (let known = prod_list (filter (\<lambda>d. 0 \<le> d) output_shape);
          unknown = length (filter (\<lambda>d. d < 0) output_shape);
          original = prod_list input_shape
      in if 1 < unknown then Inl ValueError
         else if unknown = 1 then
           (if known = 0 \<or> original mod known \<noteq> 0 then Inl ValueError
            else Inr (map (\<lambda>d. if d < 0 then original div known else d) output_shape))
         else if original \<noteq> known then Inl ValueError
         else Inr output_shape)"

definition Reshape_shape :: "int list \<Rightarrow> shape \<Rightarrow> shape result" where
  "Reshape_shape target s =
     (case s of
        [] \<Rightarrow> Inl ValueError
      | b # rest \<Rightarrow> bindE (fix_unknown_dimension rest target) (\<lambda>r. Inr (b # r)))"

text \<open>\<open>tf.reshape\<close>: the whole shape is replaced; only \<open>-1\<close> marks the inferred dimension.\<close>

definition tf_reshape_shape :: "shape \<Rightarrow> int list \<Rightarrow> shape result" where
  "tf_reshape_shape s target =
     (if list_ex (\<lambda>d. d < - 1) target then Inl InvalidArgumentError
      else (case fix_unknown_dimension s target of
              Inl e \<Rightarrow> Inl InvalidArgumentError
            | Inr r \<Rightarrow> Inr r))"

definition Dense_shape :: "int \<Rightarrow> shape \<Rightarrow> shape result" where
  "Dense_shape units s =
     (if length s < 2 \<or> units < 0 then Inl ValueError else Inr (butlast s @ [units]))"

text \<open>A convolution with \<open>valid\<close> padding, square kernel and equal strides on
  \<open>(batch, height, width, channels)\<close>.\<close>

definition Conv2D_shape :: "int \<Rightarrow> int \<Rightarrow> int \<Rightarrow> shape \<Rightarrow> shape result" where
  "Conv2D_shape filters kernel_size strides s =
     (case s of
        [b, h, w, c] \<Rightarrow>
          (if filters \<le> 0 \<or> kernel_size \<le> 0 \<or> strides \<le> 0 \<or> h < kernel_size \<or> w < kernel_size
           then Inl ValueError
           else Inr [b, (h - kernel_size) div strides + 1, (w - kernel_size) div strides + 1, filters])
      | _ \<Rightarrow> Inl ValueError)"

fun layer_call_shape :: "layer \<Rightarrow> shape \<Rightarrow> shape result" where
  "layer_call_shape (Dense p units use_bias) s = Dense_shape units s"
| "layer_call_shape (Dropout rate) s = Inr s"
| "layer_call_shape GELU s = Inr s"
| "layer_call_shape (Conv2D p filters kernel_size strides) s = Conv2D_shape filters kernel_size strides s"
| "layer_call_shape (LayerNormalization p) s = (if s = [] then Inl ValueError else Inr s)"
| "layer_call_shape (Reshape target) s = Reshape_shape target s"

definition transpose_shape :: "shape \<Rightarrow> int list \<Rightarrow> shape result" where
  "transpose_shape s perm =
     (if length perm = length s \<and> list_all (\<lambda>i. 0 \<le> i \<and> i < int (length s)) perm \<and> distinct perm
      then Inr (map (\<lambda>i. s ! nat i) perm)
      else Inl InvalidArgumentError)"

text \<open>Broadcasting aligns two shapes at their last dimensions; two dimensions are
  compatible when they are equal or one of them is 1.\<close>

fun broadcast_rev :: "int list \<Rightarrow> int list \<Rightarrow> int list option" where
  "broadcast_rev [] ys = Some ys"
| "broadcast_rev xs [] = Some xs"
| "broadcast_rev (x # xs) (y # ys) =
     (if x = y \<or> y = 1 then map_option ((#) x) (broadcast_rev xs ys)
      else if x = 1 then map_option ((#) y) (broadcast_rev xs ys)
      else None)"

definition broadcast_shapes :: "shape \<Rightarrow> shape \<Rightarrow> shape result" where
  "broadcast_shapes a b =
     (case broadcast_rev (rev a) (rev b) of
        None \<Rightarrow> Inl InvalidArgumentError
      | Some r \<Rightarrow> Inr (rev r))"

definition broadcast_to_shape :: "shape \<Rightarrow> int list \<Rightarrow> shape result" where
  "broadcast_to_shape s target =
     (if list_all (\<lambda>d. 0 \<le> d) target \<and> broadcast_rev (rev s) (rev target) = Some (rev target)
      then Inr target else Inl InvalidArgumentError)"

definition matmul_shape :: "shape \<Rightarrow> shape \<Rightarrow> bool \<Rightarrow> shape result" where
  "matmul_shape a b transpose_b =
     (if length a < 2 \<or> length b < 2 then Inl InvalidArgumentError
      else
        (let m = a ! (length a - 2); k = a ! (length a - 1);
             r = b ! (length b - 2); c = b ! (length b - 1);
             k' = (if transpose_b then c else r);
             n = (if transpose_b then r else c)
         in if k \<noteq> k' then Inl InvalidArgumentError
            else bindE (broadcast_shapes (take (length a - 2) a) (take (length b - 2) b))
                   (\<lambda>batch. Inr (batch @ [m, n]))))"

fun concat_shape :: "shape list \<Rightarrow> nat \<Rightarrow> shape result" where
  "concat_shape [] axis = Inl InvalidArgumentError"
| "concat_shape [s] axis = (if axis < length s then Inr s else Inl InvalidArgumentError)"
| "concat_shape (s # ss) axis =
     bindE (concat_shape ss axis) (\<lambda>r.
       if length s = length r \<and> axis < length s \<and> s[axis := 0] = r[axis := 0]
       then Inr (s[axis := s ! axis + r ! axis])
       else Inl InvalidArgumentError)"

text \<open>The axis of a concatenation may be negative: it then counts from the last one.\<close>

definition concat_axis :: "shape list \<Rightarrow> int \<Rightarrow> shape result" where
  "concat_axis ss axis =
     (case ss of
        [] \<Rightarrow> Inl InvalidArgumentError
      | s # _ \<Rightarrow>
          (let a = (if axis < 0 then axis + int (length s) else axis)
           in if a < 0 then Inl InvalidArgumentError else concat_shape ss (nat a)))"

definition getitem_shape :: "shape \<Rightarrow> int \<Rightarrow> shape result" where
  "getitem_shape s i =
     (case s of
        [] \<Rightarrow> Inl InvalidArgumentError
      | d # rest \<Rightarrow>
          (let j = (if i < 0 then i + d else i)
           in if 0 \<le> j \<and> j < d then Inr rest else Inl InvalidArgumentError))"

definition getitem_colon_shape :: "shape \<Rightarrow> int \<Rightarrow> shape result" where
  "getitem_colon_shape s i =
     (case s of
        b # d # rest \<Rightarrow>
          (let j = (if i < 0 then i + d else i)
           in if 0 \<le> j \<and> j < d then Inr (b # rest) else Inl InvalidArgumentError)
      | _ \<Rightarrow> Inl InvalidArgumentError)"

definition add_weight_shape :: "path \<Rightarrow> int list \<Rightarrow> shape result" where
  "add_weight_shape p s = (if list_all (\<lambda>d. 0 \<le> d) s then Inr s else Inl ValueError)"

definition shape_tf :: "shape framework" where
  "shape_tf =
     \<lparr> layer_call = layer_call_shape,
       tf_transpose = transpose_shape,
       tf_matmul = matmul_shape,
       tf_softmax = (\<lambda>s. if s = [] then Inl InvalidArgumentError else Inr s),
       tf_sqrt = (\<lambda>s. Inr s),
       tf_reshape = tf_reshape_shape,
       tf_broadcast_to = broadcast_to_shape,
       tf_concat = concat_axis,
       layers_concatenate = concat_axis,
       tf_cast = (\<lambda>s y. Inr s),
       tf_cast_int = (\<lambda>n y. Inr []),
       op_add = broadcast_shapes,
       op_truediv = broadcast_shapes,
       op_mul_scalar = (\<lambda>s c. Inr s),
       getitem = getitem_shape,
       getitem_colon = getitem_colon_shape,
       tensor_shape = (\<lambda>s. s),
       add_weight = add_weight_shape,
       call_training = None \<rparr>"


section \<open>The Pyramid Vision Transformer (PVT/pvt.py)\<close>

text \<open>
  A class is a record of its attributes, a constructor a function that returns the
  record or the exception it raises, and \<open>call\<close> a function of the framework, the object
  and the arguments.  The attribute \<open>f\<close> of a class is the field \<open>c_f\<close>, with \<open>c\<close> a short
  prefix for the class (\<open>mlp\<close>, \<open>att\<close>, \<open>blk\<close>, \<open>pe\<close>, \<open>pvt\<close>), which keeps the names of
  the constructors' parameters free (\<open>dim'\<close> and \<open>drop'\<close> are the parameters \<open>dim\<close> and
  \<open>drop\<close>).  A constructor takes the path \<open>p\<close> of the object
  first.  Local variables that the source reassigns are rebound.
\<close>

fun mapE :: "('a \<Rightarrow> 'b result) \<Rightarrow> 'a list \<Rightarrow> 'b list result" where
  "mapE f [] = Inr []"
| "mapE f (x # xs) = bindE (f x) (\<lambda>y. bindE (mapE f xs) (\<lambda>ys. Inr (y # ys)))"

text \<open>Reading an attribute that the constructor did not set raises.\<close>

definition getattr :: "'a option \<Rightarrow> 'a result" where
  "getattr a = (case a of None \<Rightarrow> Inl AttributeError | Some v \<Rightarrow> Inr v)"

subsection \<open>MLP\<close>

record MLP =
  mlp_fc1 :: layer
  mlp_act :: layer
  mlp_fc2 :: layer
  mlp_drop :: layer

definition MLP_init :: "path \<Rightarrow> int \<Rightarrow> int \<Rightarrow> real \<Rightarrow> MLP" where
  "MLP_init p hidden_features out_features drop_rate =
     \<lparr> mlp_fc1 = Dense (p @ [Attr ''fc1'']) hidden_features True,
       mlp_act = GELU,
       mlp_fc2 = Dense (p @ [Attr ''fc2'']) out_features True,
       mlp_drop = Dropout drop_rate \<rparr>"

definition MLP_call :: "'t framework \<Rightarrow> MLP \<Rightarrow> 't \<Rightarrow> bool option \<Rightarrow> 't result" where
  "MLP_call tf self inputs training =
     bindE (layer_call tf (mlp_fc1 self) inputs) (\<lambda>x.
     bindE (layer_call tf (mlp_act self) x) (\<lambda>x.
     bindE (layer_call tf (mlp_fc2 self) x) (\<lambda>x.
     bindE (if training = Some True then layer_call tf (mlp_drop self) x else Inr x) (\<lambda>x.
     Inr x))))"

subsection \<open>Attention\<close>

record Attention =
  att_dim :: int
  att_num_heads :: int
  att_head_dim :: int
  att_scale :: complex
  att_q :: layer
  att_kv :: layer
  att_attention_drop :: layer
  att_proj :: layer
  att_proj_drop :: layer
  att_sr_ratio :: int
  att_sr :: "layer option"
  att_norm :: "layer option"

text \<open>\<open>qk_scale or self.head_dim ** -.5\<close>: \<open>None\<close> and \<open>0\<close> are false.\<close>

definition Attention_init ::
  "path \<Rightarrow> int \<Rightarrow> int \<Rightarrow> bool \<Rightarrow> real option \<Rightarrow> real \<Rightarrow> real \<Rightarrow> int \<Rightarrow> Attention result" where
  "Attention_init p dim' num_heads qkv_bias qk_scale attn_drop proj_drop sr_ratio =
     bindE (py_mod dim' num_heads) (\<lambda>r.
     if r \<noteq> 0 then Inl AssertionError
     else
     bindE (py_floordiv dim' num_heads) (\<lambda>head_dim.
     bindE (case qk_scale of
              None \<Rightarrow> py_pow_neg_half head_dim
            | Some s \<Rightarrow> if s = 0 then py_pow_neg_half head_dim else Inr (of_real s)) (\<lambda>scale.
     Inr \<lparr> att_dim = dim',
           att_num_heads = num_heads,
           att_head_dim = head_dim,
           att_scale = scale,
           att_q = Dense (p @ [Attr ''q'']) dim' qkv_bias,
           att_kv = Dense (p @ [Attr ''kv'']) (2 * dim') qkv_bias,
           att_attention_drop = Dropout attn_drop,
           att_proj = Dense (p @ [Attr ''proj'']) dim' True,
           att_proj_drop = Dropout proj_drop,
           att_sr_ratio = sr_ratio,
           att_sr = (if 1 < sr_ratio then Some (Conv2D (p @ [Attr ''sr'']) dim' sr_ratio sr_ratio) else None),
           att_norm = (if 1 < sr_ratio then Some (LayerNormalization (p @ [Attr ''norm''])) else None) \<rparr>)))"

definition Attention_call :: "'t framework \<Rightarrow> Attention \<Rightarrow> 't \<Rightarrow> int \<Rightarrow> int \<Rightarrow> 't result" where
  "Attention_call tf self inputs H W =
     bindE (layer_call tf (att_q self) inputs) (\<lambda>q.
     bindE (layer_call tf (Reshape [- 1, att_num_heads self, att_head_dim self]) q) (\<lambda>q.
     bindE (tf_transpose tf q [0, 2, 1, 3]) (\<lambda>q.
     bindE (if 1 < att_sr_ratio self then
              bindE (layer_call tf (Reshape [H, W, - 1]) inputs) (\<lambda>x'.
              bindE (getattr (att_sr self)) (\<lambda>sr.
              bindE (layer_call tf sr x') (\<lambda>x'.
              bindE (layer_call tf
                       (Reshape [H div att_sr_ratio self * W div att_sr_ratio self, - 1]) x') (\<lambda>x'.
              bindE (getattr (att_norm self)) (\<lambda>norm.
              bindE (layer_call tf norm x') (\<lambda>x'.
              bindE (layer_call tf (att_kv self) x') (\<lambda>kv.
              bindE (layer_call tf (Reshape [- 1, 2, att_num_heads self, att_head_dim self]) kv) (\<lambda>kv.
              tf_transpose tf kv [2, 0, 3, 1, 4]))))))))
            else
              bindE (layer_call tf (att_kv self) inputs) (\<lambda>kv.
              bindE (layer_call tf (Reshape [- 1, 2, att_num_heads self, att_head_dim self]) kv) (\<lambda>kv.
              tf_transpose tf kv [2, 0, 3, 1, 4]))) (\<lambda>kv.
     bindE (getitem tf kv 0) (\<lambda>k.
     bindE (getitem tf kv 1) (\<lambda>v.
     bindE (tf_transpose tf k [0, 1, 3, 2]) (\<lambda>kT.
     bindE (tf_matmul tf q kT False) (\<lambda>attention.
     bindE (op_mul_scalar tf attention (att_scale self)) (\<lambda>attention.
     bindE (tf_softmax tf attention) (\<lambda>attention.
     bindE (layer_call tf (att_attention_drop self) attention) (\<lambda>attention.
     bindE (tf_matmul tf attention v False) (\<lambda>x.
     bindE (tf_transpose tf x [0, 2, 1, 3]) (\<lambda>x.
     bindE (layer_call tf (Reshape [- 1, att_num_heads self * att_head_dim self]) x) (\<lambda>x.
     bindE (layer_call tf (att_proj self) x) (\<lambda>x.
     bindE (layer_call tf (att_proj_drop self) x) (\<lambda>x.
     Inr x))))))))))))))))"

subsection \<open>Block\<close>

record Block =
  blk_norm1 :: layer
  blk_attention :: Attention
  blk_norm2 :: layer
  blk_mlp :: MLP

definition Block_init ::
  "path \<Rightarrow> int \<Rightarrow> int \<Rightarrow> real \<Rightarrow> bool \<Rightarrow> real option \<Rightarrow> real \<Rightarrow> real \<Rightarrow> real \<Rightarrow> int \<Rightarrow> Block result" where
  "Block_init p dim' num_heads mlp_ratio qkv_bias qk_scale drop' attn_drop proj_drop sr_ratio =
     bindE (Attention_init (p @ [Attr ''attention'']) dim' num_heads qkv_bias qk_scale
              attn_drop proj_drop sr_ratio) (\<lambda>attention.
     Inr \<lparr> blk_norm1 = LayerNormalization (p @ [Attr ''norm1'']),
           blk_attention = attention,
           blk_norm2 = LayerNormalization (p @ [Attr ''norm2'']),
           blk_mlp = MLP_init (p @ [Attr ''mlp'']) (py_int (of_int dim' * mlp_ratio)) dim' drop' \<rparr>)"

text \<open>The source binds \<open>y\<close> to \<open>self.norm2(x)\<close> and then rebinds it to \<open>self.mlp(x)\<close>.\<close>

definition Block_call :: "'t framework \<Rightarrow> Block \<Rightarrow> 't \<Rightarrow> int \<Rightarrow> int \<Rightarrow> 't result" where
  "Block_call tf self inputs H W =
     bindE (layer_call tf (blk_norm1 self) inputs) (\<lambda>x.
     bindE (Attention_call tf (blk_attention self) x H W) (\<lambda>x.
     bindE (op_add tf inputs x) (\<lambda>x.
     bindE (layer_call tf (blk_norm2 self) x) (\<lambda>y.
     bindE (MLP_call tf (blk_mlp self) x (call_training tf)) (\<lambda>y.
     op_add tf x y)))))"

subsection \<open>PatchEmbedding\<close>

record PatchEmbedding =
  pe_img_size :: int
  pe_patch_size :: int
  pe_embedding_dim :: int
  pe_H :: int
  pe_W :: int
  pe_num_patches :: int
  pe_project :: layer
  pe_norm :: layer

definition PatchEmbedding_init :: "path \<Rightarrow> int \<Rightarrow> int \<Rightarrow> int \<Rightarrow> PatchEmbedding result" where
  "PatchEmbedding_init p img_size patch_size embedding_dim =
     bindE (py_mod img_size patch_size) (\<lambda>r.
     if r \<noteq> 0 then Inl AssertionError
     else
     bindE (py_floordiv img_size patch_size) (\<lambda>H.
     bindE (py_floordiv img_size patch_size) (\<lambda>W.
     Inr \<lparr> pe_img_size = img_size,
           pe_patch_size = patch_size,
           pe_embedding_dim = embedding_dim,
           pe_H = H,
           pe_W = W,
           pe_num_patches = H * W,
           pe_project = Conv2D (p @ [Attr ''project'']) embedding_dim patch_size patch_size,
           pe_norm = LayerNormalization (p @ [Attr ''norm'']) \<rparr>)))"

definition PatchEmbedding_call ::
  "'t framework \<Rightarrow> PatchEmbedding \<Rightarrow> 't \<Rightarrow> ('t \<times> int \<times> int) result" where
  "PatchEmbedding_call tf self inputs =
     bindE (layer_call tf (pe_project self) inputs) (\<lambda>x.
     bindE (layer_call tf (Reshape [pe_num_patches self, pe_embedding_dim self]) x) (\<lambda>x.
     bindE (layer_call tf (pe_norm self) x) (\<lambda>x.
     Inr (x, (pe_H self, pe_W self)))))"

subsection \<open>PyramidVisionTransformer\<close>

record 't PyramidVisionTransformer =
  pvt_num_classes :: int
  pvt_depths :: "int list"
  pvt_patch_embed1 :: PatchEmbedding
  pvt_patch_embed2 :: PatchEmbedding
  pvt_patch_embed3 :: PatchEmbedding
  pvt_patch_embed4 :: PatchEmbedding
  pvt_pos_embed1 :: 't
  pvt_pos_drop1 :: layer
  pvt_pos_embed2 :: 't
  pvt_pos_drop2 :: layer
  pvt_pos_embed3 :: 't
  pvt_pos_drop3 :: layer
  pvt_pos_embed4 :: 't
  pvt_pos_drop4 :: layer
  pvt_block1 :: "Block list"
  pvt_block2 :: "Block list"
  pvt_block3 :: "Block list"
  pvt_block4 :: "Block list"
  pvt_norm :: layer
  pvt_cls_token :: 't
  pvt_dense :: layer

text \<open>
  The list comprehension of stage \<open>i + 1\<close>,
  \<^verbatim>\<open>[Block(dim=embed_dims[i], num_heads=num_heads[i], mlp_ratio=mlp_ratios[i], qkv_bias=qkv_bias,
        qk_scale=qk_scale, drop=drop_rate, attn_drop=attn_drop_rate, sr_ratio=sr_ratios[i])
   for _ in range(depths[i])]\<close>:
  \<open>proj_drop\<close> keeps its default \<open>0.\<close>, and the subscripts of the body are evaluated
  once per element, so not at all when \<open>depths[i]\<close> is not positive.
\<close>

definition stage_blocks ::
  "string \<Rightarrow> nat \<Rightarrow> int list \<Rightarrow> int list \<Rightarrow> real list \<Rightarrow> bool \<Rightarrow> real option \<Rightarrow> real \<Rightarrow> real \<Rightarrow>
     int list \<Rightarrow> int list \<Rightarrow> Block list result" where
  "stage_blocks name i embed_dims num_heads mlp_ratios qkv_bias qk_scale drop_rate attn_drop_rate
       depths sr_ratios =
     bindE (py_getitem depths i) (\<lambda>depth.
     mapE (\<lambda>j.
       bindE (py_getitem embed_dims i) (\<lambda>dim'.
       bindE (py_getitem num_heads i) (\<lambda>heads.
       bindE (py_getitem mlp_ratios i) (\<lambda>mlp_ratio.
       bindE (py_getitem sr_ratios i) (\<lambda>sr_ratio.
       Block_init [Attr name, Item j] dim' heads mlp_ratio qkv_bias qk_scale
         drop_rate attn_drop_rate 0 sr_ratio)))))
       (py_range depth))"

definition PyramidVisionTransformer_init ::
  "'t framework \<Rightarrow> int \<Rightarrow> int \<Rightarrow> int \<Rightarrow> int list \<Rightarrow> int list \<Rightarrow> real list \<Rightarrow> bool \<Rightarrow> real option \<Rightarrow>
     real \<Rightarrow> real \<Rightarrow> int list \<Rightarrow> int list \<Rightarrow> 't PyramidVisionTransformer result" where
  "PyramidVisionTransformer_init tf img_size patch_size num_classes embed_dims num_heads mlp_ratios
       qkv_bias qk_scale drop_rate attn_drop_rate depths sr_ratios =
     bindE (py_getitem embed_dims 0) (\<lambda>e0.
     bindE (PatchEmbedding_init [Attr ''patch_embed1''] img_size patch_size e0) (\<lambda>patch_embed1.
     bindE (py_getitem embed_dims 1) (\<lambda>e1.
     bindE (PatchEmbedding_init [Attr ''patch_embed2''] (img_size div 4) 2 e1) (\<lambda>patch_embed2.
     bindE (py_getitem embed_dims 2) (\<lambda>e2.
     bindE (PatchEmbedding_init [Attr ''patch_embed3''] (img_size div 8) 2 e2) (\<lambda>patch_embed3.
     bindE (py_getitem embed_dims 3) (\<lambda>e3.
     bindE (PatchEmbedding_init [Attr ''patch_embed4''] (img_size div 16) 2 e3) (\<lambda>patch_embed4.
     bindE (add_weight tf [Attr ''pos_embed1''] [1, pe_num_patches patch_embed1, e0]) (\<lambda>pos_embed1.
     bindE (add_weight tf [Attr ''pos_embed2''] [1, pe_num_patches patch_embed2, e1]) (\<lambda>pos_embed2.
     bindE (add_weight tf [Attr ''pos_embed3''] [1, pe_num_patches patch_embed3, e2]) (\<lambda>pos_embed3.
     bindE (add_weight tf [Attr ''pos_embed4''] [1, pe_num_patches patch_embed4 + 1, e3]) (\<lambda>pos_embed4.
     bindE (stage_blocks ''block1'' 0 embed_dims num_heads mlp_ratios qkv_bias qk_scale drop_rate
              attn_drop_rate depths sr_ratios) (\<lambda>block1.
     bindE (stage_blocks ''block2'' 1 embed_dims num_heads mlp_ratios qkv_bias qk_scale drop_rate
              attn_drop_rate depths sr_ratios) (\<lambda>block2.
     bindE (stage_blocks ''block3'' 2 embed_dims num_heads mlp_ratios qkv_bias qk_scale drop_rate
              attn_drop_rate depths sr_ratios) (\<lambda>block3.
     bindE (stage_blocks ''block4'' 3 embed_dims num_heads mlp_ratios qkv_bias qk_scale drop_rate
              attn_drop_rate depths sr_ratios) (\<lambda>block4.
     bindE (add_weight tf [Attr ''cls_token''] [1, 1, e3]) (\<lambda>cls_token.
     Inr \<lparr> pvt_num_classes = num_classes,
           pvt_depths = depths,
           pvt_patch_embed1 = patch_embed1,
           pvt_patch_embed2 = patch_embed2,
           pvt_patch_embed3 = patch_embed3,
           pvt_patch_embed4 = patch_embed4,
           pvt_pos_embed1 = pos_embed1,
           pvt_pos_drop1 = Dropout drop_rate,
           pvt_pos_embed2 = pos_embed2,
           pvt_pos_drop2 = Dropout drop_rate,
           pvt_pos_embed3 = pos_embed3,
           pvt_pos_drop3 = Dropout drop_rate,
           pvt_pos_embed4 = pos_embed4,
           pvt_pos_drop4 = Dropout drop_rate,
           pvt_block1 = block1,
           pvt_block2 = block2,
           pvt_block3 = block3,
           pvt_block4 = block4,
           pvt_norm = LayerNormalization [Attr ''norm''],
           pvt_cls_token = cls_token,
           pvt_dense = Dense [Attr ''dense''] num_classes True \<rparr>)))))))))))))))))"

text \<open>The constructor's defaults.\<close>

definition PyramidVisionTransformer_default ::
  "'t framework \<Rightarrow> 't PyramidVisionTransformer result" where
  "PyramidVisionTransformer_default tf =
     PyramidVisionTransformer_init tf 224 4 1000 [64, 128, 256, 512] [1, 2, 4, 8] [4, 4, 4, 4]
       False None 0 0 [3, 4, 6, 3] [8, 4, 2, 1]"

text \<open>\<open>for blk in blocks: x = blk(x, H, W)\<close>\<close>

fun run_blocks :: "'t framework \<Rightarrow> Block list \<Rightarrow> 't \<Rightarrow> int \<Rightarrow> int \<Rightarrow> 't result" where
  "run_blocks tf [] x H W = Inr x"
| "run_blocks tf (blk # blks) x H W =
     bindE (Block_call tf blk x H W) (\<lambda>x. run_blocks tf blks x H W)"

text \<open>\<open>xs[-1]\<close>\<close>

definition py_getitem_last :: "'a list \<Rightarrow> 'a result" where
  "py_getitem_last xs = (if xs = [] then Inl IndexError else Inr (last xs))"

text \<open>
  \<open>call\<close> assigns to \<open>self.cls_token\<close>, so it returns the object next to the predictions.
\<close>

definition PyramidVisionTransformer_call ::
  "'t framework \<Rightarrow> 't PyramidVisionTransformer \<Rightarrow> 't \<Rightarrow>
     ('t \<times> 't PyramidVisionTransformer) result" where
  "PyramidVisionTransformer_call tf self inputs =
     bindE (py_getitem (tensor_shape tf inputs) 0) (\<lambda>B.
     bindE (PatchEmbedding_call tf (pvt_patch_embed1 self) inputs) (\<lambda>(x, H, W).
     bindE (op_add tf x (pvt_pos_embed1 self)) (\<lambda>x.
     bindE (layer_call tf (pvt_pos_drop1 self) x) (\<lambda>x.
     bindE (run_blocks tf (pvt_block1 self) x H W) (\<lambda>x.
     bindE (layer_call tf (Reshape [H, W, - 1]) x) (\<lambda>x.
     bindE (PatchEmbedding_call tf (pvt_patch_embed2 self) x) (\<lambda>(x, H, W).
     bindE (op_add tf x (pvt_pos_embed2 self)) (\<lambda>x.
     bindE (layer_call tf (pvt_pos_drop2 self) x) (\<lambda>x.
     bindE (run_blocks tf (pvt_block2 self) x H W) (\<lambda>x.
     bindE (layer_call tf (Reshape [H, W, - 1]) x) (\<lambda>x.
     bindE (PatchEmbedding_call tf (pvt_patch_embed3 self) x) (\<lambda>(x, H, W).
     bindE (op_add tf x (pvt_pos_embed3 self)) (\<lambda>x.
     bindE (layer_call tf (pvt_pos_drop3 self) x) (\<lambda>x.
     bindE (run_blocks tf (pvt_block3 self) x H W) (\<lambda>x.
     bindE (layer_call tf (Reshape [H, W, - 1]) x) (\<lambda>x.
     bindE (PatchEmbedding_call tf (pvt_patch_embed4 self) x) (\<lambda>(x, H, W).
     bindE (py_getitem_last (tensor_shape tf (pvt_cls_token self))) (\<lambda>c.
     bindE (tf_broadcast_to tf (pvt_cls_token self) [B, 1, c]) (\<lambda>cls_token.
     bindE (Inr (self\<lparr>pvt_cls_token := cls_token\<rparr>)) (\<lambda>self.
     bindE (layers_concatenate tf [pvt_cls_token self, x] 1) (\<lambda>x.
     bindE (op_add tf x (pvt_pos_embed4 self)) (\<lambda>x.
     bindE (layer_call tf (pvt_pos_drop4 self) x) (\<lambda>x.
     bindE (run_blocks tf (pvt_block4 self) x H W) (\<lambda>x.
     bindE (layer_call tf (pvt_norm self) x) (\<lambda>x.
     bindE (getitem_colon tf x 0) (\<lambda>cls_token.
     bindE (layer_call tf (pvt_dense self) cls_token) (\<lambda>predictions.
     Inr (predictions, self))))))))))))))))))))))))))))"


section \<open>The Vision Transformer layers (model.py)\<close>

text \<open>
  \<open>ClassToken\<close> and \<open>PositionEmbedding\<close> create their weight in \<open>build\<close>, which Keras runs
  on the first call with the shape of the input: the field \<open>built\<close> is the flag Keras
  keeps, and \<open>apply\<close> is the Keras call \<open>layer(inputs)\<close>, that is \<open>build\<close> when the layer is
  not built yet and then \<open>call\<close>.  Prefixes: \<open>ct\<close>, \<open>pos\<close> and \<open>vit\<close> (the class \<open>Attention\<close>
  of model.py, here \<open>ViT_Attention\<close>).
\<close>

subsection \<open>ClassToken\<close>

record 't ClassToken =
  ct_path :: path
  ct_initializer :: string
  ct_num_features :: int
  ct_cls_w :: "'t option"
  ct_built :: bool

definition ClassToken_init :: "path \<Rightarrow> string \<Rightarrow> 't ClassToken" where
  "ClassToken_init p initializer =
     \<lparr> ct_path = p, ct_initializer = initializer, ct_num_features = 0, ct_cls_w = None,
       ct_built = False \<rparr>"

definition ClassToken_build :: "'t framework \<Rightarrow> 't ClassToken \<Rightarrow> int list \<Rightarrow> 't ClassToken result" where
  "ClassToken_build tf self input_shape =
     bindE (py_getitem_last input_shape) (\<lambda>num_features.
     bindE (add_weight tf (ct_path self @ [Attr ''cls_w'']) [1, 1, num_features]) (\<lambda>cls_w.
     Inr (self\<lparr>ct_num_features := num_features, ct_cls_w := Some cls_w\<rparr>)))"

definition ClassToken_call :: "'t framework \<Rightarrow> 't ClassToken \<Rightarrow> 't \<Rightarrow> 't result" where
  "ClassToken_call tf self inputs =
     bindE (py_getitem (tensor_shape tf inputs) 0) (\<lambda>batch_size.
     bindE (case ct_cls_w self of None \<Rightarrow> Inl ValueError | Some w \<Rightarrow> Inr w) (\<lambda>cls_w.
     bindE (tf_broadcast_to tf cls_w [batch_size, 1, ct_num_features self]) (\<lambda>cls_broadcast.
     bindE (tf_cast tf cls_broadcast inputs) (\<lambda>cls_broadcast.
     tf_concat tf [cls_broadcast, inputs] 1))))"

definition ClassToken_apply :: "'t framework \<Rightarrow> 't ClassToken \<Rightarrow> 't \<Rightarrow> ('t \<times> 't ClassToken) result" where
  "ClassToken_apply tf self inputs =
     bindE (if ct_built self then Inr self
            else bindE (ClassToken_build tf self (tensor_shape tf inputs))
                   (\<lambda>self. Inr (self\<lparr>ct_built := True\<rparr>))) (\<lambda>self.
     bindE (ClassToken_call tf self inputs) (\<lambda>outputs.
     Inr (outputs, self)))"

subsection \<open>PositionEmbedding\<close>

record 't PositionEmbedding =
  pos_path :: path
  pos_initializer :: string
  pos_pos_w :: "'t option"
  pos_built :: bool

definition PositionEmbedding_init :: "path \<Rightarrow> string \<Rightarrow> 't PositionEmbedding" where
  "PositionEmbedding_init p initializer =
     \<lparr> pos_path = p, pos_initializer = initializer, pos_pos_w = None, pos_built = False \<rparr>"

definition PositionEmbedding_build ::
  "'t framework \<Rightarrow> 't PositionEmbedding \<Rightarrow> int list \<Rightarrow> 't PositionEmbedding result" where
  "PositionEmbedding_build tf self input_shape =
     (if length input_shape \<noteq> 3 then Inl AssertionError
      else
      bindE (py_getitem input_shape 1) (\<lambda>d1.
      bindE (py_getitem input_shape 2) (\<lambda>d2.
      bindE (add_weight tf (pos_path self @ [Attr ''pos_w'']) [1, d1, d2]) (\<lambda>pos_w.
      Inr (self\<lparr>pos_pos_w := Some pos_w\<rparr>)))))"

definition PositionEmbedding_call :: "'t framework \<Rightarrow> 't PositionEmbedding \<Rightarrow> 't \<Rightarrow> 't result" where
  "PositionEmbedding_call tf self inputs =
     bindE (getattr (pos_pos_w self)) (\<lambda>pos_w.
     bindE (tf_cast tf pos_w inputs) (\<lambda>pos_w.
     op_add tf inputs pos_w))"

definition PositionEmbedding_apply ::
  "'t framework \<Rightarrow> 't PositionEmbedding \<Rightarrow> 't \<Rightarrow> ('t \<times> 't PositionEmbedding) result" where
  "PositionEmbedding_apply tf self inputs =
     bindE (if pos_built self then Inr self
            else bindE (PositionEmbedding_build tf self (tensor_shape tf inputs))
                   (\<lambda>self. Inr (self\<lparr>pos_built := True\<rparr>))) (\<lambda>self.
     bindE (PositionEmbedding_call tf self inputs) (\<lambda>outputs.
     Inr (outputs, self)))"

subsection \<open>Attention\<close>

record ViT_Attention =
  vit_num_features :: int
  vit_num_heads :: int
  vit_project_dim :: int

definition ViT_Attention_init :: "int \<Rightarrow> int \<Rightarrow> ViT_Attention result" where
  "ViT_Attention_init num_features num_heads =
     bindE (py_floordiv num_features num_heads) (\<lambda>project_dim.
     Inr \<lparr> vit_num_features = num_features,
           vit_num_heads = num_heads,
           vit_project_dim = project_dim \<rparr>)"

definition ViT_Attention_call :: "'t framework \<Rightarrow> ViT_Attention \<Rightarrow> 't \<Rightarrow> 't result" where
  "ViT_Attention_call tf self inputs =
     bindE (py_getitem (tensor_shape tf inputs) 0) (\<lambda>batch_size.
     bindE (tf_reshape tf inputs [batch_size, - 1, 3, vit_num_heads self, vit_project_dim self]) (\<lambda>inputs.
     bindE (tf_transpose tf inputs [2, 0, 3, 1, 4]) (\<lambda>inputs.
     bindE (getitem tf inputs 0) (\<lambda>query.
     bindE (getitem tf inputs 1) (\<lambda>key.
     bindE (getitem tf inputs 2) (\<lambda>value.
     bindE (tf_matmul tf query key True) (\<lambda>score.
     bindE (tf_cast_int tf (vit_project_dim self) score) (\<lambda>d.
     bindE (tf_sqrt tf d) (\<lambda>d.
     bindE (op_truediv tf score d) (\<lambda>scaled_score.
     bindE (tf_softmax tf scaled_score) (\<lambda>weights.
     bindE (tf_matmul tf weights value False) (\<lambda>weighted_value.
     bindE (tf_transpose tf weighted_value [0, 2, 1, 3]) (\<lambda>outputs.
     bindE (tf_reshape tf outputs [batch_size, - 1, vit_num_features self]) (\<lambda>outputs.
     Inr outputs))))))))))))))"


section \<open>The parts of \<open>Attention.call\<close> and the reference attention\<close>

text \<open>
  Two parts of \<open>Attention_call\<close>, named for the proofs: the key/value source (the branch
  on \<open>sr_ratio\<close>) and what follows it.  \<open>Attention_call_parts\<close> below shows that
  \<open>Attention_call\<close> is their composition.
\<close>

definition Attention_kv :: "'t framework \<Rightarrow> Attention \<Rightarrow> 't \<Rightarrow> int \<Rightarrow> int \<Rightarrow> 't result" where
  "Attention_kv tf self inputs H W =
     (if 1 < att_sr_ratio self then
        bindE (layer_call tf (Reshape [H, W, - 1]) inputs) (\<lambda>x'.
        bindE (getattr (att_sr self)) (\<lambda>sr.
        bindE (layer_call tf sr x') (\<lambda>x'.
        bindE (layer_call tf
                 (Reshape [H div att_sr_ratio self * W div att_sr_ratio self, - 1]) x') (\<lambda>x'.
        bindE (getattr (att_norm self)) (\<lambda>norm.
        bindE (layer_call tf norm x') (\<lambda>x'.
        bindE (layer_call tf (att_kv self) x') (\<lambda>kv.
        bindE (layer_call tf (Reshape [- 1, 2, att_num_heads self, att_head_dim self]) kv) (\<lambda>kv.
        tf_transpose tf kv [2, 0, 3, 1, 4]))))))))
      else
        bindE (layer_call tf (att_kv self) inputs) (\<lambda>kv.
        bindE (layer_call tf (Reshape [- 1, 2, att_num_heads self, att_head_dim self]) kv) (\<lambda>kv.
        tf_transpose tf kv [2, 0, 3, 1, 4])))"

definition Attention_weigh :: "'t framework \<Rightarrow> Attention \<Rightarrow> 't \<Rightarrow> 't \<Rightarrow> 't result" where
  "Attention_weigh tf self q kv =
     bindE (getitem tf kv 0) (\<lambda>k.
     bindE (getitem tf kv 1) (\<lambda>v.
     bindE (tf_transpose tf k [0, 1, 3, 2]) (\<lambda>kT.
     bindE (tf_matmul tf q kT False) (\<lambda>attention.
     bindE (op_mul_scalar tf attention (att_scale self)) (\<lambda>attention.
     bindE (tf_softmax tf attention) (\<lambda>attention.
     bindE (layer_call tf (att_attention_drop self) attention) (\<lambda>attention.
     bindE (tf_matmul tf attention v False) (\<lambda>x.
     bindE (tf_transpose tf x [0, 2, 1, 3]) (\<lambda>x.
     bindE (layer_call tf (Reshape [- 1, att_num_heads self * att_head_dim self]) x) (\<lambda>x.
     bindE (layer_call tf (att_proj self) x) (\<lambda>x.
     bindE (layer_call tf (att_proj_drop self) x) (\<lambda>x.
     Inr x))))))))))))"





text \<open>
  A framework at inference: a \<open>Dropout\<close> layer returns its input, every other operation
  is unchanged.
\<close>

definition inference :: "'t framework \<Rightarrow> 't framework" where
  "inference tf =
     tf\<lparr>layer_call := (\<lambda>l x. case l of Dropout rate \<Rightarrow> Inr x | _ \<Rightarrow> layer_call tf l x)\<rparr>"


section \<open>The data flow of a call\<close>

text \<open>
  The free reading of the framework: a tensor is the expression that computes it, every
  operation succeeds and records itself with its arguments.  Two calls with different
  traces apply different operations to their input.  A trace has no shape.
\<close>

datatype trace =
    Input
  | Variable path "int list"
  | Call layer trace
  | Scale trace complex
  | Op string "int list" "trace list"

definition trace_tf :: "trace framework" where
  "trace_tf =
     \<lparr> layer_call = (\<lambda>l x. Inr (Call l x)),
       tf_transpose = (\<lambda>x perm. Inr (Op ''transpose'' perm [x])),
       tf_matmul = (\<lambda>a b transpose_b. Inr (Op ''matmul'' [if transpose_b then 1 else 0] [a, b])),
       tf_softmax = (\<lambda>x. Inr (Op ''softmax'' [] [x])),
       tf_sqrt = (\<lambda>x. Inr (Op ''sqrt'' [] [x])),
       tf_reshape = (\<lambda>x s. Inr (Op ''reshape'' s [x])),
       tf_broadcast_to = (\<lambda>x s. Inr (Op ''broadcast_to'' s [x])),
       tf_concat = (\<lambda>xs axis. Inr (Op ''concat'' [axis] xs)),
       layers_concatenate = (\<lambda>xs axis. Inr (Op ''concatenate'' [axis] xs)),
       tf_cast = (\<lambda>x y. Inr (Op ''cast'' [] [x, y])),
       tf_cast_int = (\<lambda>n y. Inr (Op ''cast'' [n] [y])),
       op_add = (\<lambda>a b. Inr (Op ''add'' [] [a, b])),
       op_truediv = (\<lambda>a b. Inr (Op ''truediv'' [] [a, b])),
       op_mul_scalar = (\<lambda>a c. Inr (Scale a c)),
       getitem = (\<lambda>x i. Inr (Op ''getitem'' [i] [x])),
       getitem_colon = (\<lambda>x i. Inr (Op ''getitem_colon'' [i] [x])),
       tensor_shape = (\<lambda>x. []),
       add_weight = (\<lambda>p s. Inr (Variable p s)),
       call_training = None \<rparr>"

text \<open>
  The transformer block in the words of the specification (section 4.6):
  \<open>x' = x + Attention(Norm1(x))\<close>, then \<open>y = x' + MLP(Norm2(x'))\<close>, with the layers of a
  \<open>Block\<close> object.  This definition follows the specification, not the source.
\<close>

definition Block_preactivation :: "'t framework \<Rightarrow> Block \<Rightarrow> 't \<Rightarrow> int \<Rightarrow> int \<Rightarrow> 't result" where
  "Block_preactivation tf self x H W =
     bindE (layer_call tf (blk_norm1 self) x) (\<lambda>n1.
     bindE (Attention_call tf (blk_attention self) n1 H W) (\<lambda>a.
     bindE (op_add tf x a) (\<lambda>x'.
     bindE (layer_call tf (blk_norm2 self) x') (\<lambda>n2.
     bindE (MLP_call tf (blk_mlp self) n2 (call_training tf)) (\<lambda>m.
     op_add tf x' m)))))"


section \<open>The default model\<close>

text \<open>
  The object that the constructor returns on its defaults (\<open>img_size = 224\<close>,
  \<open>patch_size = 4\<close>, embedding dimensions 64, 128, 256, 512), written out for the proofs:
  \<open>num_classes\<close>, the four lists of blocks and the value of \<open>cls_token\<close> are parameters.
  \<open>PyramidVisionTransformer_default_init\<close> below shows that the constructor returns it.
\<close>

definition default_model ::
  "int \<Rightarrow> Block list \<Rightarrow> Block list \<Rightarrow> Block list \<Rightarrow> Block list \<Rightarrow> shape \<Rightarrow>
     shape PyramidVisionTransformer" where
  "default_model num_classes b1 b2 b3 b4 c =
     \<lparr> pvt_num_classes = num_classes,
       pvt_depths = [3, 4, 6, 3],
       pvt_patch_embed1 =
         \<lparr> pe_img_size = 224, pe_patch_size = 4, pe_embedding_dim = 64, pe_H = 56, pe_W = 56,
           pe_num_patches = 3136,
           pe_project = Conv2D [Attr ''patch_embed1'', Attr ''project''] 64 4 4,
           pe_norm = LayerNormalization [Attr ''patch_embed1'', Attr ''norm''] \<rparr>,
       pvt_patch_embed2 =
         \<lparr> pe_img_size = 56, pe_patch_size = 2, pe_embedding_dim = 128, pe_H = 28, pe_W = 28,
           pe_num_patches = 784,
           pe_project = Conv2D [Attr ''patch_embed2'', Attr ''project''] 128 2 2,
           pe_norm = LayerNormalization [Attr ''patch_embed2'', Attr ''norm''] \<rparr>,
       pvt_patch_embed3 =
         \<lparr> pe_img_size = 28, pe_patch_size = 2, pe_embedding_dim = 256, pe_H = 14, pe_W = 14,
           pe_num_patches = 196,
           pe_project = Conv2D [Attr ''patch_embed3'', Attr ''project''] 256 2 2,
           pe_norm = LayerNormalization [Attr ''patch_embed3'', Attr ''norm''] \<rparr>,
       pvt_patch_embed4 =
         \<lparr> pe_img_size = 14, pe_patch_size = 2, pe_embedding_dim = 512, pe_H = 7, pe_W = 7,
           pe_num_patches = 49,
           pe_project = Conv2D [Attr ''patch_embed4'', Attr ''project''] 512 2 2,
           pe_norm = LayerNormalization [Attr ''patch_embed4'', Attr ''norm''] \<rparr>,
       pvt_pos_embed1 = [1, 3136, 64],
       pvt_pos_drop1 = Dropout 0,
       pvt_pos_embed2 = [1, 784, 128],
       pvt_pos_drop2 = Dropout 0,
       pvt_pos_embed3 = [1, 196, 256],
       pvt_pos_drop3 = Dropout 0,
       pvt_pos_embed4 = [1, 50, 512],
       pvt_pos_drop4 = Dropout 0,
       pvt_block1 = b1,
       pvt_block2 = b2,
       pvt_block3 = b3,
       pvt_block4 = b4,
       pvt_norm = LayerNormalization [Attr ''norm''],
       pvt_cls_token = c,
       pvt_dense = Dense [Attr ''dense''] num_classes True \<rparr>"

text \<open>The lists of blocks of the default model.\<close>

definition default_blocks :: "string \<Rightarrow> nat \<Rightarrow> Block list result" where
  "default_blocks name i =
     stage_blocks name i [64, 128, 256, 512] [1, 2, 4, 8] [4, 4, 4, 4] False None 0 0
       [3, 4, 6, 3] [8, 4, 2, 1]"


section \<open>Evaluating the model\<close>

lemma bindE_Inr [simp]: "bindE (Inr x) f = f x"
  by (simp add: bindE_def)

lemma bindE_Inl [simp]: "bindE (Inl e) f = Inl e"
  by (simp add: bindE_def)

lemma bindE_eq_Inr: "bindE m f = Inr y \<longleftrightarrow> (\<exists>x. m = Inr x \<and> f x = Inr y)"
  by (cases m) simp_all


lemma bindE_return [simp]: "bindE m Inr = m"
  by (cases m) simp_all

lemma Attention_call_parts:
  "Attention_call tf self inputs H W =
     bindE (layer_call tf (att_q self) inputs) (\<lambda>q.
     bindE (layer_call tf (Reshape [- 1, att_num_heads self, att_head_dim self]) q) (\<lambda>q.
     bindE (tf_transpose tf q [0, 2, 1, 3]) (\<lambda>q.
     bindE (Attention_kv tf self inputs H W) (\<lambda>kv.
     Attention_weigh tf self q kv))))"
  by (simp add: Attention_call_def Attention_kv_def Attention_weigh_def)

lemma shape_tf_sel [simp]:
  "layer_call shape_tf = layer_call_shape"
  "tf_transpose shape_tf = transpose_shape"
  "tf_matmul shape_tf = matmul_shape"
  "tf_softmax shape_tf = (\<lambda>s. if s = [] then Inl InvalidArgumentError else Inr s)"
  "tf_sqrt shape_tf = (\<lambda>s. Inr s)"
  "tf_reshape shape_tf = tf_reshape_shape"
  "tf_broadcast_to shape_tf = broadcast_to_shape"
  "tf_concat shape_tf = concat_axis"
  "layers_concatenate shape_tf = concat_axis"
  "tf_cast shape_tf = (\<lambda>s y. Inr s)"
  "tf_cast_int shape_tf = (\<lambda>n y. Inr [])"
  "op_add shape_tf = broadcast_shapes"
  "op_truediv shape_tf = broadcast_shapes"
  "op_mul_scalar shape_tf = (\<lambda>s c. Inr s)"
  "getitem shape_tf = getitem_shape"
  "getitem_colon shape_tf = getitem_colon_shape"
  "tensor_shape shape_tf = (\<lambda>s. s)"
  "add_weight shape_tf = add_weight_shape"
  "call_training shape_tf = None"
  by (simp_all add: shape_tf_def)

text \<open>A reshape whose target has no dimension to infer.\<close>

lemma Reshape_shape_known:
  assumes "list_all (\<lambda>d. 0 \<le> d) t" and "prod_list s = prod_list t"
  shows "Reshape_shape t (b # s) = Inr (b # t)"
proof -
  have "filter (\<lambda>d. 0 \<le> d) t = t" "filter (\<lambda>d. d < 0) t = []"
    using assms(1) by (induction t) auto
  then show ?thesis
    using assms(2) by (simp add: Reshape_shape_def fix_unknown_dimension_def)
qed


section \<open>Patch embedding\<close>

text \<open>A convolution whose stride is its kernel size \<open>k\<close>, on a side of \<open>m\<close> whole patches.\<close>

lemma Conv2D_shape_patches:
  assumes "0 < k" and "0 < m" and "0 < m'" and "0 < f"
  shows "Conv2D_shape f k k [B, k * m, k * m', C] = Inr [B, m, m', f]"
proof -
  have "(k * m - k) div k + 1 = m" if "0 < m" for m
  proof -
    have "k * m - k = k * (m - 1)" by (simp add: algebra_simps)
    then show ?thesis using assms(1) by simp
  qed
  moreover have "k \<le> k * m" if "0 < m" for m
    using assms(1) that by (simp add: mult_le_cancel_left1)
  ultimately show ?thesis
    using assms by (simp add: Conv2D_shape_def not_less)
qed

lemma PatchEmbedding_call_shape:
  assumes "0 < k" and "0 < m" and "0 < e"
  shows "PatchEmbedding_call shape_tf
           \<lparr> pe_img_size = k * m, pe_patch_size = k, pe_embedding_dim = e, pe_H = m, pe_W = m,
             pe_num_patches = m * m, pe_project = Conv2D q e k k, pe_norm = LayerNormalization q' \<rparr>
           [B, k * m, k * m, C] = Inr ([B, m * m, e], (m, m))"
  using assms
  by (simp add: PatchEmbedding_call_def Conv2D_shape_patches Reshape_shape_known)

text \<open>
  C6.  For positive sizes with \<open>img_size % patch_size == 0\<close> the constructor of
  \<open>PatchEmbedding\<close> succeeds and counts \<open>(img_size / patch_size)\<^sup>2\<close> patches, and the call on a
  batch of \<open>img_size \<times> img_size\<close> images returns the sequence of shape
  \<open>(batch, num_patches, embedding_dim)\<close> together with the pair
  \<open>(img_size / patch_size, img_size / patch_size)\<close>.
\<close>

theorem PatchEmbedding_num_patches:
  assumes "0 < img_size" and "0 < patch_size" and "img_size mod patch_size = 0"
    and "0 < embedding_dim"
  shows "\<exists>self. PatchEmbedding_init p img_size patch_size embedding_dim = Inr self
           \<and> pe_num_patches self = (img_size div patch_size)\<^sup>2
           \<and> PatchEmbedding_call shape_tf self [B, img_size, img_size, C] =
               Inr ([B, (img_size div patch_size)\<^sup>2, embedding_dim],
                    (img_size div patch_size, img_size div patch_size))"
proof -
  define m where "m = img_size div patch_size"
  have img: "img_size = patch_size * m"
    using assms(3) unfolding m_def by (metis mult_div_mod_eq add.right_neutral)
  have m: "0 < m"
    using assms(1,2) img by (simp add: zero_less_mult_iff)
  have init: "PatchEmbedding_init p img_size patch_size embedding_dim =
      Inr \<lparr> pe_img_size = patch_size * m, pe_patch_size = patch_size, pe_embedding_dim = embedding_dim,
            pe_H = m, pe_W = m, pe_num_patches = m * m,
            pe_project = Conv2D (p @ [Attr ''project'']) embedding_dim patch_size patch_size,
            pe_norm = LayerNormalization (p @ [Attr ''norm'']) \<rparr>"
    using assms(2) by (simp add: PatchEmbedding_init_def py_mod_def py_floordiv_def img)
  show ?thesis
    unfolding init m_def [symmetric]
    using PatchEmbedding_call_shape [OF assms(2) m assms(4), of _ _ B C]
    by (simp add: power2_eq_square img)
qed

theorem PatchEmbedding_num_patches_witness:
  "\<exists>self. PatchEmbedding_init [] 224 16 768 = Inr self
           \<and> pe_num_patches self = 196
           \<and> PatchEmbedding_call shape_tf self [4, 224, 224, 3] = Inr ([4, 196, 768], (14, 14))"
  using PatchEmbedding_num_patches [of 224 16 768 "[]" 4 3] by simp


section \<open>Class token and position embedding\<close>

text \<open>
  C8.  On an input of shape \<open>(B, N, D)\<close> a fresh \<open>ClassToken\<close> layer builds one token of
  shape \<open>(1, 1, D)\<close> and returns shape \<open>(B, N + 1, D)\<close>, and a fresh \<open>PositionEmbedding\<close> layer
  returns a tensor of the shape of its input; whatever the framework, \<open>call\<close> broadcasts the
  token over the batch and concatenates it in front of the input along axis 1.  The
  witness is the input of shape \<open>(4, 196, 768)\<close>.
\<close>

theorem ClassToken_PositionEmbedding_shape:
  assumes "0 \<le> B" and "0 \<le> N" and "0 \<le> D"
  shows "ClassToken_apply shape_tf (ClassToken_init p i) [B, N, D] =
           Inr ([B, N + 1, D],
                \<lparr> ct_path = p, ct_initializer = i, ct_num_features = D,
                  ct_cls_w = Some [1, 1, D], ct_built = True \<rparr>)
         \<and> PositionEmbedding_apply shape_tf (PositionEmbedding_init p' i') [B, N + 1, D] =
           Inr ([B, N + 1, D],
                \<lparr> pos_path = p', pos_initializer = i', pos_pos_w = Some [1, N + 1, D],
                  pos_built = True \<rparr>)
         \<and> (ct_cls_w self = Some w \<and> tensor_shape tf inputs = b # rest \<longrightarrow>
              ClassToken_call tf self inputs =
                bindE (tf_broadcast_to tf w [b, 1, ct_num_features self]) (\<lambda>c.
                bindE (tf_cast tf c inputs) (\<lambda>c.
                tf_concat tf [c, inputs] 1)))"
proof (intro conjI impI)
  have build: "ClassToken_build shape_tf (ClassToken_init p i) [B, N, D] =
      Inr \<lparr> ct_path = p, ct_initializer = i, ct_num_features = D,
            ct_cls_w = Some [1, 1, D], ct_built = False \<rparr>"
    using assms
    by (simp add: ClassToken_build_def ClassToken_init_def py_getitem_last_def add_weight_shape_def)
  have call: "ClassToken_call shape_tf
      \<lparr> ct_path = p, ct_initializer = i, ct_num_features = D,
        ct_cls_w = Some [1, 1, D], ct_built = True \<rparr> [B, N, D] = Inr [B, N + 1, D]"
    using assms
    by (simp add: ClassToken_call_def py_getitem_def broadcast_to_shape_def concat_axis_def)
  show "ClassToken_apply shape_tf (ClassToken_init p i) [B, N, D] =
           Inr ([B, N + 1, D],
                \<lparr> ct_path = p, ct_initializer = i, ct_num_features = D,
                  ct_cls_w = Some [1, 1, D], ct_built = True \<rparr>)"
    by (simp add: ClassToken_apply_def build call) (simp add: ClassToken_init_def)
next
  have build: "PositionEmbedding_build shape_tf (PositionEmbedding_init p' i') [B, N + 1, D] =
      Inr \<lparr> pos_path = p', pos_initializer = i', pos_pos_w = Some [1, N + 1, D],
            pos_built = False \<rparr>"
    using assms
    by (simp add: PositionEmbedding_build_def PositionEmbedding_init_def py_getitem_def
        add_weight_shape_def)
  have call: "PositionEmbedding_call shape_tf
      \<lparr> pos_path = p', pos_initializer = i', pos_pos_w = Some [1, N + 1, D],
        pos_built = True \<rparr> [B, N + 1, D] = Inr [B, N + 1, D]"
    by (simp add: PositionEmbedding_call_def getattr_def broadcast_shapes_def)
  show "PositionEmbedding_apply shape_tf (PositionEmbedding_init p' i') [B, N + 1, D] =
           Inr ([B, N + 1, D],
                \<lparr> pos_path = p', pos_initializer = i', pos_pos_w = Some [1, N + 1, D],
                  pos_built = True \<rparr>)"
    by (simp add: PositionEmbedding_apply_def build call) (simp add: PositionEmbedding_init_def)
next
  assume "ct_cls_w self = Some w \<and> tensor_shape tf inputs = b # rest"
  then show "ClassToken_call tf self inputs =
      bindE (tf_broadcast_to tf w [b, 1, ct_num_features self]) (\<lambda>c.
      bindE (tf_cast tf c inputs) (\<lambda>c.
      tf_concat tf [c, inputs] 1))"
    by (simp add: ClassToken_call_def py_getitem_def)
qed

theorem ClassToken_PositionEmbedding_shape_witness:
  "ClassToken_apply shape_tf (ClassToken_init [] ''zeros'') [4, 196, 768] =
           Inr ([4, 197, 768],
                \<lparr> ct_path = [], ct_initializer = ''zeros'', ct_num_features = 768,
                  ct_cls_w = Some [1, 1, 768], ct_built = True \<rparr>)
         \<and> PositionEmbedding_apply shape_tf (PositionEmbedding_init [] ''zero'') [4, 197, 768] =
           Inr ([4, 197, 768],
                \<lparr> pos_path = [], pos_initializer = ''zero'', pos_pos_w = Some [1, 197, 768],
                  pos_built = True \<rparr>)
         \<and> ClassToken_call shape_tf
              \<lparr> ct_path = [], ct_initializer = ''zeros'', ct_num_features = 768,
                ct_cls_w = Some [1, 1, 768], ct_built = True \<rparr> [4, 196, 768] =
            bindE (broadcast_to_shape [1, 1, 768] [4, 1, 768]) (\<lambda>c. concat_axis [c, [4, 196, 768]] 1)"
  using ClassToken_PositionEmbedding_shape
    [of 4 196 768 "[]" "''zeros''" "[]" "''zero''"
      "\<lparr> ct_path = [], ct_initializer = ''zeros'', ct_num_features = 768,
         ct_cls_w = Some [1, 1, 768], ct_built = True \<rparr>" "[1, 1, 768]" shape_tf "[4, 196, 768]" 4
      "[196, 768]"]
  by simp


section \<open>The shapes of attention\<close>

lemma Reshape_shape_infer_head:
  assumes "list_all (\<lambda>d. 0 < d) t" and "prod_list s = n * prod_list t"
  shows "Reshape_shape (- 1 # t) (b # s) = Inr (b # n # t)"
proof -
  have f: "filter (\<lambda>d. 0 \<le> d) t = t" "filter (\<lambda>d. d < 0) t = []"
    "map (\<lambda>d. if d < 0 then x else d) t = t" for x
    using assms(1) by (induction t) auto
  have "0 < prod_list t"
    using assms(1) by (induction t) auto
  then show ?thesis
    using assms(2) by (simp add: Reshape_shape_def fix_unknown_dimension_def f)
qed

lemma Reshape_shape_infer_last:
  assumes "list_all (\<lambda>d. 0 < d) t" and "prod_list s = prod_list t * n"
  shows "Reshape_shape (t @ [- 1]) (b # s) = Inr (b # t @ [n])"
proof -
  have f: "filter (\<lambda>d. 0 \<le> d) t = t" "filter (\<lambda>d. d < 0) t = []"
    "map (\<lambda>d. if d < 0 then x else d) t = t" for x
    using assms(1) by (induction t) auto
  have "0 < prod_list t"
    using assms(1) by (induction t) auto
  then show ?thesis
    using assms(2) by (simp add: Reshape_shape_def fix_unknown_dimension_def f)
qed

lemma Dense_shape_3: "0 \<le> u \<Longrightarrow> Dense_shape u [B, N, C] = Inr [B, N, u]"
  by (simp add: Dense_shape_def)

text \<open>Every framework layer keeps the batch dimension.\<close>

lemma layer_call_shape_batch:
  assumes "layer_call_shape l (b # s) = Inr r"
  shows "\<exists>r'. r = b # r'"
proof (cases l)
  case (Dense p u ub)
  then show ?thesis
    using assms by (cases s) (auto simp: Dense_shape_def split: if_splits)
next
  case (Conv2D p f k st)
  then show ?thesis
    using assms by (auto simp: Conv2D_shape_def split: list.splits if_splits)
next
  case (Reshape t)
  then show ?thesis
    using assms by (auto simp: Reshape_shape_def bindE_eq_Inr)
qed (use assms in \<open>auto split: if_splits\<close>)

lemma Reshape_shape_kv_form:
  assumes "0 < h" and "0 < d" and "Reshape_shape [- 1, 2, h, d] (b # s) = Inr r"
  shows "\<exists>n. r = [b, n, 2, h, d]"
  using assms
  by (auto simp: Reshape_shape_def fix_unknown_dimension_def bindE_eq_Inr Let_def split: if_splits)

lemma Attention_kv_form:
  assumes "0 < h" and "0 < d"
    and "att_num_heads self = h" and "att_head_dim self = d"
    and "Attention_kv shape_tf self (B # s) H W = Inr kv"
  shows "\<exists>n. kv = [2, B, h, n, d]"
proof -
  have last_steps: "\<exists>n. kv = [2, B, h, n, d]"
    if a: "layer_call_shape (att_kv self) (B # x) = Inr y"
      and b: "layer_call_shape (Reshape [- 1, 2, h, d]) y = Inr z"
      and c: "transpose_shape z [2, 0, 3, 1, 4] = Inr kv" for x y z
  proof -
    obtain y' where "y = B # y'"
      using layer_call_shape_batch [OF a] by blast
    with b have "Reshape_shape [- 1, 2, h, d] (B # y') = Inr z"
      by simp
    then obtain n where "z = [B, n, 2, h, d]"
      using Reshape_shape_kv_form [OF assms(1,2)] by blast
    then show ?thesis
      using c by (auto simp: transpose_shape_def)
  qed
  show ?thesis
  proof (cases "1 < att_sr_ratio self")
    case False
    then show ?thesis
      using assms(3-5) last_steps
      by (auto simp: Attention_kv_def bindE_eq_Inr)
  next
    case True
    then obtain x1 sr x2 x3 nrm x4 y z where
      1: "layer_call_shape (Reshape [H, W, - 1]) (B # s) = Inr x1"
      and 2: "layer_call_shape sr x1 = Inr x2"
      and 3: "layer_call_shape (Reshape [H div att_sr_ratio self * W div att_sr_ratio self, - 1]) x2 = Inr x3"
      and 4: "layer_call_shape nrm x3 = Inr x4"
      and 5: "layer_call_shape (att_kv self) x4 = Inr y"
      and 6: "layer_call_shape (Reshape [- 1, 2, h, d]) y = Inr z"
      and 7: "transpose_shape z [2, 0, 3, 1, 4] = Inr kv"
      using assms(3-5) by (auto simp: Attention_kv_def bindE_eq_Inr)
    obtain x1' where "x1 = B # x1'"
      using layer_call_shape_batch [OF 1] by blast
    with 2 obtain x2' where "x2 = B # x2'"
      using layer_call_shape_batch [of sr B x1' x2] by blast
    with 3 obtain x3' where "x3 = B # x3'"
      using layer_call_shape_batch [of _ B x2' x3] by blast
    with 4 obtain x4' where "x4 = B # x4'"
      using layer_call_shape_batch [of nrm B x3' x4] by blast
    with 5 6 7 show ?thesis
      using last_steps by blast
  qed
qed

lemma Attention_weigh_shape:
  assumes "0 < h" and "0 < d"
    and "att_num_heads self = h" and "att_head_dim self = d"
    and "att_proj self = Dense pp (h * d) ub"
    and "att_attention_drop self = Dropout r1" and "att_proj_drop self = Dropout r2"
  shows "Attention_weigh shape_tf self [B, h, N, d] [2, B, h, n, d] = Inr [B, N, h * d]"
proof -
  have r: "Reshape_shape [- 1, h * d] [B, N, h, d] = Inr [B, N, h * d]"
    using assms(1,2) by (intro Reshape_shape_infer_head) simp_all
  have "0 \<le> h * d"
    using assms(1,2) by simp
  then show ?thesis
    by (simp add: Attention_weigh_def assms(3-7) getitem_shape_def transpose_shape_def
        matmul_shape_def broadcast_shapes_def r Dense_shape_3)
qed

lemma Attention_q_shape:
  assumes "0 < h" and "0 < d"
  shows "Dense_shape (h * d) [B, N, C] = Inr [B, N, h * d]"
    and "Reshape_shape [- 1, h, d] [B, N, h * d] = Inr [B, N, h, d]"
    and "transpose_shape [B, N, h, d] [0, 2, 1, 3] = Inr [B, h, N, d]"
proof -
  have "0 \<le> h * d"
    using assms by simp
  then show "Dense_shape (h * d) [B, N, C] = Inr [B, N, h * d]"
    by (simp add: Dense_shape_3)
  show "Reshape_shape [- 1, h, d] [B, N, h * d] = Inr [B, N, h, d]"
    using assms by (simp add: Reshape_shape_infer_head)
  show "transpose_shape [B, N, h, d] [0, 2, 1, 3] = Inr [B, h, N, d]"
    by (simp add: transpose_shape_def)
qed

text \<open>Whenever the call returns, its result has the batch and the length of the input.\<close>

lemma Attention_call_shape_returns:
  assumes "0 < h" and "0 < d"
    and "att_num_heads self = h" and "att_head_dim self = d"
    and "att_q self = Dense pq (h * d) ub"
    and "att_proj self = Dense pp (h * d) ub'"
    and "att_attention_drop self = Dropout r1" and "att_proj_drop self = Dropout r2"
    and "Attention_call shape_tf self [B, N, C] H W = Inr out"
  shows "out = [B, N, h * d]"
proof -
  from assms(9) obtain kv where kv: "Attention_kv shape_tf self [B, N, C] H W = Inr kv"
    and out: "Attention_weigh shape_tf self [B, h, N, d] kv = Inr out"
    by (auto simp: Attention_call_parts assms(3-5) Attention_q_shape [OF assms(1,2)] bindE_eq_Inr)
  obtain n where "kv = [2, B, h, n, d]"
    using Attention_kv_form [OF assms(1-4) kv] by blast
  then show ?thesis
    using out Attention_weigh_shape [OF assms(1-4,6-8)] by simp
qed

text \<open>Without spatial reduction the call accepts every sequence.\<close>

lemma Attention_call_shape_full:
  assumes "0 < h" and "0 < d"
    and "att_num_heads self = h" and "att_head_dim self = d"
    and "att_q self = Dense pq (h * d) ub"
    and "att_kv self = Dense pk (2 * (h * d)) ub''"
    and "att_proj self = Dense pp (h * d) ub'"
    and "att_attention_drop self = Dropout r1" and "att_proj_drop self = Dropout r2"
    and "\<not> 1 < att_sr_ratio self"
  shows "Attention_call shape_tf self [B, N, C] H W = Inr [B, N, h * d]"
proof -
  have "0 \<le> 2 * (h * d)"
    using assms(1,2) by simp
  then have dense: "Dense_shape (2 * (h * d)) [B, N, C] = Inr [B, N, 2 * (h * d)]"
    by (rule Dense_shape_3)
  have r: "Reshape_shape [- 1, 2, h, d] [B, N, 2 * (h * d)] = Inr [B, N, 2, h, d]"
    using assms(1,2) by (intro Reshape_shape_infer_head) simp_all
  have kv: "Attention_kv shape_tf self [B, N, C] H W = Inr [2, B, h, N, d]"
    by (simp add: Attention_kv_def assms(3,4,6,10) dense r transpose_shape_def)
  show ?thesis
    by (simp add: Attention_call_parts assms(3-5) Attention_q_shape [OF assms(1,2)] kv
        Attention_weigh_shape [OF assms(1-4,7-9)])
qed

text \<open>With spatial reduction: a sequence of \<open>H \<times> W\<close> positions, both multiples of the ratio.\<close>

lemma Attention_kv_shape_sr:
  assumes "0 < h" and "0 < d" and "1 < sr" and "0 < m" and "0 < m'"
    and "att_num_heads self = h" and "att_head_dim self = d"
    and "att_kv self = Dense pk (2 * (h * d)) ub"
    and "att_sr_ratio self = sr"
    and "att_sr self = Some (Conv2D ps (h * d) sr sr)"
    and "att_norm self = Some (LayerNormalization pn)"
  shows "Attention_kv shape_tf self [B, (sr * m) * (sr * m'), C] (sr * m) (sr * m') =
           Inr [2, B, h, m * m', d]"
proof -
  have sr: "0 < sr"
    using assms(3) by simp
  have 1: "Reshape_shape [sr * m, sr * m', - 1] [B, (sr * m) * (sr * m'), C] =
      Inr [B, sr * m, sr * m', C]"
    using Reshape_shape_infer_last [of "[sr * m, sr * m']" "[(sr * m) * (sr * m'), C]" C B]
      sr assms(4,5) by simp
  have 2: "Conv2D_shape (h * d) sr sr [B, sr * m, sr * m', C] = Inr [B, m, m', h * d]"
    using assms(1,2,4,5) sr by (intro Conv2D_shape_patches) simp_all
  have e: "sr * m div sr * (sr * m') div sr = m * m'"
  proof -
    have "sr * m div sr = m"
      using sr by simp
    moreover have "m * (sr * m') = sr * (m * m')"
      by (simp add: algebra_simps)
    ultimately show ?thesis
      using sr by simp
  qed
  have 3: "Reshape_shape [m * m', - 1] [B, m, m', h * d] = Inr [B, m * m', h * d]"
    using Reshape_shape_infer_last [of "[m * m']" "[m, m', h * d]" "h * d" B] assms(4,5)
    by (simp add: mult.assoc)
  have "0 \<le> 2 * (h * d)"
    using assms(1,2) by simp
  then have 4: "Dense_shape (2 * (h * d)) [B, m * m', h * d] = Inr [B, m * m', 2 * (h * d)]"
    by (rule Dense_shape_3)
  have 5: "Reshape_shape [- 1, 2, h, d] [B, m * m', 2 * (h * d)] = Inr [B, m * m', 2, h, d]"
    using assms(1,2) by (intro Reshape_shape_infer_head) simp_all
  show ?thesis
    unfolding Attention_kv_def assms(6-11)
    using assms(3) by (simp add: getattr_def e 1 2 3 4 5 transpose_shape_def)
qed

lemma Attention_call_shape_sr:
  assumes "0 < h" and "0 < d" and "1 < sr" and "0 < m" and "0 < m'"
    and "att_num_heads self = h" and "att_head_dim self = d"
    and "att_q self = Dense pq (h * d) ub'"
    and "att_kv self = Dense pk (2 * (h * d)) ub"
    and "att_proj self = Dense pp (h * d) ub''"
    and "att_attention_drop self = Dropout r1" and "att_proj_drop self = Dropout r2"
    and "att_sr_ratio self = sr"
    and "att_sr self = Some (Conv2D ps (h * d) sr sr)"
    and "att_norm self = Some (LayerNormalization pn)"
  shows "Attention_call shape_tf self [B, (sr * m) * (sr * m'), C] (sr * m) (sr * m') =
           Inr [B, (sr * m) * (sr * m'), h * d]"
  by (simp add: Attention_call_parts assms(6-8) Attention_q_shape [OF assms(1,2)]
      Attention_kv_shape_sr [OF assms(1-7,9,13-15)]
      Attention_weigh_shape [OF assms(1,2,6,7,10-12)])

text \<open>What the constructor returns.\<close>

lemma Attention_init_Inr:
  assumes "Attention_init p dim' num_heads qkv_bias qk_scale attn_drop proj_drop sr_ratio = Inr self"
  shows "num_heads \<noteq> 0" and "dim' mod num_heads = 0"
    and "att_dim self = dim'" and "att_num_heads self = num_heads"
    and "att_head_dim self = dim' div num_heads"
    and "att_q self = Dense (p @ [Attr ''q'']) dim' qkv_bias"
    and "att_kv self = Dense (p @ [Attr ''kv'']) (2 * dim') qkv_bias"
    and "att_attention_drop self = Dropout attn_drop"
    and "att_proj self = Dense (p @ [Attr ''proj'']) dim' True"
    and "att_proj_drop self = Dropout proj_drop"
    and "att_sr_ratio self = sr_ratio"
    and "att_sr self = (if 1 < sr_ratio then Some (Conv2D (p @ [Attr ''sr'']) dim' sr_ratio sr_ratio) else None)"
    and "att_norm self = (if 1 < sr_ratio then Some (LayerNormalization (p @ [Attr ''norm''])) else None)"
  using assms
  by (auto simp: Attention_init_def py_mod_def py_floordiv_def bindE_eq_Inr split: if_splits)

lemma Attention_init_ok:
  assumes "0 < dim'" and "0 < num_heads" and "dim' mod num_heads = 0"
  shows "\<exists>self. Attention_init p dim' num_heads qkv_bias qk_scale attn_drop proj_drop sr_ratio = Inr self"
proof -
  have "dim' = num_heads * (dim' div num_heads)"
    using assms(3) by (metis mult_div_mod_eq add.right_neutral)
  then have "dim' div num_heads \<noteq> 0"
    using assms(1) by (metis mult_zero_right less_irrefl)
  then show ?thesis
    using assms(2,3)
    by (simp add: Attention_init_def py_mod_def py_floordiv_def py_pow_neg_half_def
        split: option.split)
qed

text \<open>The attention of model.py on the concatenated projections.\<close>

lemma tf_reshape_shape_merge:
  assumes "0 < B" and "0 < f" and "prod_list s = N * f"
  shows "tf_reshape_shape (B # s) [B, - 1, f] = Inr [B, N, f]"
proof -
  have "0 < B * f"
    using assms(1,2) by simp
  moreover have "B * (N * f) = N * (B * f)"
    by (simp add: algebra_simps)
  ultimately show ?thesis
    using assms
    by (simp add: tf_reshape_shape_def fix_unknown_dimension_def not_less less_imp_le)
qed

lemma ViT_Attention_call_shape:
  assumes "0 < B" and "0 < h" and "0 < d"
  shows "ViT_Attention_call shape_tf
           \<lparr> vit_num_features = h * d, vit_num_heads = h, vit_project_dim = d \<rparr>
           [B, N, 3 * (h * d)] = Inr [B, N, h * d]"
proof -
  have pos: "0 < B * (3 * (h * d))"
    using assms by simp
  have 1: "tf_reshape_shape [B, N, 3 * (h * d)] [B, - 1, 3, h, d] = Inr [B, N, 3, h, d]"
  proof -
    have "B * (N * (3 * (h * d))) = N * (B * (3 * (h * d)))"
      by (simp add: algebra_simps)
    then show ?thesis
      using assms pos
      by (simp add: tf_reshape_shape_def fix_unknown_dimension_def not_less less_imp_le)
  qed
  have 2: "tf_reshape_shape [B, N, h, d] [B, - 1, h * d] = Inr [B, N, h * d]"
    using assms by (intro tf_reshape_shape_merge) simp_all
  show ?thesis
    by (simp add: ViT_Attention_call_def py_getitem_def 1 2 transpose_shape_def getitem_shape_def
        matmul_shape_def broadcast_shapes_def)
qed

text \<open>
  C5.  For a positive \<open>dim\<close> divisible by a positive \<open>num_heads\<close> the constructor of the PVT
  \<open>Attention\<close> succeeds, and on a sequence of shape \<open>(B, N, dim)\<close>: whenever the call returns,
  its result has shape \<open>(B, N, dim)\<close>; it does return that shape when \<open>sr_ratio \<le> 1\<close>, and,
  when \<open>sr_ratio > 1\<close>, for \<open>N = H W\<close> with \<open>H\<close> and \<open>W\<close> positive multiples of the ratio.
  The \<open>Attention\<close> of model.py is constructed too, and maps the concatenated projections
  of shape \<open>(B, N, 3 dim)\<close> of a non-empty batch to shape \<open>(B, N, dim)\<close>.
\<close>

theorem Attention_shape_preserving:
  assumes "0 < dim'" and "0 < num_heads" and "dim' mod num_heads = 0"
  shows "\<exists>self vit.
      Attention_init p dim' num_heads qkv_bias qk_scale attn_drop proj_drop sr_ratio = Inr self
    \<and> (\<forall>out. Attention_call shape_tf self [B, N, dim'] H W = Inr out \<longrightarrow> out = [B, N, dim'])
    \<and> (sr_ratio \<le> 1 \<longrightarrow> Attention_call shape_tf self [B, N, dim'] H W = Inr [B, N, dim'])
    \<and> (1 < sr_ratio \<and> 0 < H \<and> 0 < W \<and> H mod sr_ratio = 0 \<and> W mod sr_ratio = 0 \<longrightarrow>
         Attention_call shape_tf self [B, H * W, dim'] H W = Inr [B, H * W, dim'])
    \<and> ViT_Attention_init dim' num_heads = Inr vit
    \<and> (0 < B \<longrightarrow> ViT_Attention_call shape_tf vit [B, N, 3 * dim'] = Inr [B, N, dim'])"
proof -
  define d where "d = dim' div num_heads"
  have dim: "dim' = num_heads * d"
    using assms(3) unfolding d_def by (metis mult_div_mod_eq add.right_neutral)
  have d: "0 < d"
    using assms(1,2) dim by (simp add: zero_less_mult_iff)
  obtain self where
    init: "Attention_init p dim' num_heads qkv_bias qk_scale attn_drop proj_drop sr_ratio = Inr self"
    using Attention_init_ok [OF assms] by blast
  note f = Attention_init_Inr [OF init, unfolded d_def [symmetric], unfolded dim]
  have returns: "out = [B, N, num_heads * d]"
    if "Attention_call shape_tf self [B, N, num_heads * d] H W = Inr out" for out
    using Attention_call_shape_returns [OF assms(2) d f(4,5,6,9,8,10) that] .
  have full: "Attention_call shape_tf self [B, N, num_heads * d] H W = Inr [B, N, num_heads * d]"
    if "sr_ratio \<le> 1"
    using that by (intro Attention_call_shape_full [OF assms(2) d f(4,5,6,7,9,8,10)]) (simp add: f(11))
  have reduced: "Attention_call shape_tf self [B, H * W, num_heads * d] H W =
      Inr [B, H * W, num_heads * d]"
    if sr: "1 < sr_ratio" and "0 < H" and "0 < W" and "H mod sr_ratio = 0" and "W mod sr_ratio = 0"
  proof -
    define m where "m = H div sr_ratio"
    define m' where "m' = W div sr_ratio"
    have H: "H = sr_ratio * m" and W: "W = sr_ratio * m'"
      using that(4,5) unfolding m_def m'_def by (metis mult_div_mod_eq add.right_neutral)+
    have "0 < m" and "0 < m'"
      using that(1-3) H W by (simp_all add: zero_less_mult_iff)
    then show ?thesis
      unfolding H W
      using sr by (intro Attention_call_shape_sr [OF assms(2) d sr _ _ f(4,5,6,7,9,8,10,11)])
        (simp_all add: f(12,13))
  qed
  have vit: "ViT_Attention_init dim' num_heads =
      Inr \<lparr> vit_num_features = num_heads * d, vit_num_heads = num_heads, vit_project_dim = d \<rparr>"
    using assms(2) by (simp add: ViT_Attention_init_def py_floordiv_def d_def [symmetric] dim)
  have vit_call: "ViT_Attention_call shape_tf
      \<lparr> vit_num_features = num_heads * d, vit_num_heads = num_heads, vit_project_dim = d \<rparr>
      [B, N, 3 * (num_heads * d)] = Inr [B, N, num_heads * d]" if "0 < B"
    using ViT_Attention_call_shape [OF that assms(2) d] .
  show ?thesis
    using init returns full reduced vit vit_call unfolding dim by blast
qed

theorem Attention_shape_preserving_witness:
  "(\<exists>self. Attention_init [] 512 8 False None 0 0 1 = Inr self
       \<and> Attention_call shape_tf self [4, 50, 512] 7 7 = Inr [4, 50, 512])
   \<and> (\<exists>self. Attention_init [] 64 1 False None 0 0 8 = Inr self
       \<and> Attention_call shape_tf self [4, 3136, 64] 56 56 = Inr [4, 3136, 64])
   \<and> (\<exists>vit. ViT_Attention_init 768 12 = Inr vit
       \<and> ViT_Attention_call shape_tf vit [4, 197, 2304] = Inr [4, 197, 768])"
proof (intro conjI)
  show "\<exists>self. Attention_init [] 512 8 False None 0 0 1 = Inr self
       \<and> Attention_call shape_tf self [4, 50, 512] 7 7 = Inr [4, 50, 512]"
    using Attention_shape_preserving [of 512 8 "[]" False None 0 0 1 4 50 7 7] by auto
  show "\<exists>self. Attention_init [] 64 1 False None 0 0 8 = Inr self
       \<and> Attention_call shape_tf self [4, 3136, 64] 56 56 = Inr [4, 3136, 64]"
    using Attention_shape_preserving [of 64 1 "[]" False None 0 0 8 4 _ 56 56] by auto
  show "\<exists>vit. ViT_Attention_init 768 12 = Inr vit
       \<and> ViT_Attention_call shape_tf vit [4, 197, 2304] = Inr [4, 197, 768]"
    using Attention_shape_preserving [of 768 12 "[]" False None 0 0 1 4 197] by auto
qed


section \<open>Attention without and with spatial reduction\<close>

text \<open>
  C10, as amended.  For an \<open>Attention\<close> object made by the constructor with positive \<open>dim\<close> and
  \<open>num_heads\<close>, on an input of shape \<open>(B, N, C)\<close>: with \<open>sr_ratio > 1\<close> the call reshapes the
  input to \<open>(H, W, -1)\<close>, so it returns only if \<open>H\<close> and \<open>W\<close> are positive and \<open>H W\<close> divides
  \<open>N C\<close>; a sequence of length \<open>H W + 1\<close> raises \<open>ValueError\<close> whenever \<open>H W\<close> does not divide
  \<open>C\<close> (the default final stage: 49 does not divide 512); with \<open>sr_ratio \<le> 1\<close> the
  sequence of length \<open>H W + 1\<close> is accepted.
\<close>

theorem Attention_sr_reshape_requirement:
  assumes "Attention_init p dim' num_heads qkv_bias qk_scale attn_drop proj_drop sr_ratio = Inr self"
    and "0 < dim'" and "0 < num_heads"
  shows "(1 < sr_ratio \<and> Attention_call shape_tf self [B, N, C] H W = Inr out \<longrightarrow>
            0 < H \<and> 0 < W \<and> H * W dvd N * C)
       \<and> (1 < sr_ratio \<and> \<not> H * W dvd C \<longrightarrow>
            Attention_call shape_tf self [B, H * W + 1, C] H W = Inl ValueError)
       \<and> (sr_ratio \<le> 1 \<longrightarrow>
            Attention_call shape_tf self [B, H * W + 1, dim'] H W = Inr [B, H * W + 1, dim'])"
proof -
  define d where "d = dim' div num_heads"
  note f0 = Attention_init_Inr [OF assms(1)]
  have dim: "dim' = num_heads * d"
    using f0(2) unfolding d_def by (metis mult_div_mod_eq add.right_neutral)
  have d: "0 < d"
    using assms(2,3) dim by (simp add: zero_less_mult_iff)
  note f = f0 [unfolded d_def [symmetric], unfolded dim]
  have call: "Attention_call shape_tf self [B, n, C] H W =
      bindE (Attention_kv shape_tf self [B, n, C] H W) (\<lambda>kv.
        Attention_weigh shape_tf self [B, num_heads, n, d] kv)" for n
    by (simp add: Attention_call_parts f(4-6) Attention_q_shape [OF assms(3) d])
  have reshape: "0 < H \<and> 0 < W \<and> H * W dvd n * C"
    if "Reshape_shape [H, W, - 1] [B, n, C] = Inr x" for n x
  proof -
    have "0 \<le> H" "0 \<le> W" "H * W \<noteq> 0" "n * C mod (H * W) = 0"
      using that
      by (auto simp: Reshape_shape_def fix_unknown_dimension_def bindE_eq_Inr Let_def
          split: if_splits)
    then show ?thesis
      by (auto simp: less_le mod_eq_0_iff_dvd)
  qed
  have a: "0 < H \<and> 0 < W \<and> H * W dvd N * C"
    if "1 < sr_ratio" and "Attention_call shape_tf self [B, N, C] H W = Inr out"
  proof -
    from that obtain x where "Reshape_shape [H, W, - 1] [B, N, C] = Inr x"
      by (auto simp: call Attention_kv_def f(11) bindE_eq_Inr)
    then show ?thesis
      by (rule reshape)
  qed
  have b: "Attention_call shape_tf self [B, H * W + 1, C] H W = Inl ValueError"
    if "1 < sr_ratio" and "\<not> H * W dvd C"
  proof -
    have "\<not> H * W dvd (H * W + 1) * C"
    proof
      assume "H * W dvd (H * W + 1) * C"
      then have "H * W dvd H * W * C + C"
        by (simp add: algebra_simps)
      then have "H * W dvd C"
        by (metis dvd_add_right_iff dvd_triv_left mult.assoc)
      with that(2) show False ..
    qed
    then have "Reshape_shape [H, W, - 1] [B, H * W + 1, C] = Inl ValueError"
      by (auto simp: Reshape_shape_def fix_unknown_dimension_def Let_def mod_eq_0_iff_dvd)
    then show ?thesis
      using that(1) by (simp add: call Attention_kv_def f(11))
  qed
  have c: "Attention_call shape_tf self [B, H * W + 1, num_heads * d] H W =
      Inr [B, H * W + 1, num_heads * d]" if "sr_ratio \<le> 1"
    using that
    by (intro Attention_call_shape_full [OF assms(3) d f(4,5,6,7,9,8,10)]) (simp add: f(11))
  show ?thesis
    using a b c unfolding dim by blast
qed

text \<open>The definitions that evaluate a call of \<open>Attention\<close> on a concrete shape.\<close>

lemmas shape_eval =
  Attention_call_def Attention_init_def py_mod_def py_floordiv_def py_pow_neg_half_def getattr_def
  Reshape_shape_def fix_unknown_dimension_def Dense_shape_def Conv2D_shape_def transpose_shape_def
  matmul_shape_def broadcast_shapes_def getitem_shape_def Let_def

text \<open>
  C10 as stated fails: with \<open>sr_ratio = 2\<close>, \<open>H = W = 2\<close> and four features, the sequence of
  length \<open>H W + 1 = 5\<close> is reshaped to \<open>(2, 2, 5)\<close> and the call returns.
\<close>

theorem Attention_sr_class_token_counterexample:
  "Attention_init [] 4 1 False (Some 1) 0 0 2 =
     Inr \<lparr> att_dim = 4, att_num_heads = 1, att_head_dim = 4, att_scale = 1,
           att_q = Dense [Attr ''q''] 4 False, att_kv = Dense [Attr ''kv''] 8 False,
           att_attention_drop = Dropout 0, att_proj = Dense [Attr ''proj''] 4 True,
           att_proj_drop = Dropout 0, att_sr_ratio = 2,
           att_sr = Some (Conv2D [Attr ''sr''] 4 2 2),
           att_norm = Some (LayerNormalization [Attr ''norm'']) \<rparr>
   \<and> Attention_call shape_tf
       \<lparr> att_dim = 4, att_num_heads = 1, att_head_dim = 4, att_scale = 1,
         att_q = Dense [Attr ''q''] 4 False, att_kv = Dense [Attr ''kv''] 8 False,
         att_attention_drop = Dropout 0, att_proj = Dense [Attr ''proj''] 4 True,
         att_proj_drop = Dropout 0, att_sr_ratio = 2,
         att_sr = Some (Conv2D [Attr ''sr''] 4 2 2),
         att_norm = Some (LayerNormalization [Attr ''norm'']) \<rparr> [1, 2 * 2 + 1, 4] 2 2 =
     Inr [1, 2 * 2 + 1, 4]"
  by (simp add: shape_eval)

theorem Attention_sr_reshape_requirement_witness:
  "(\<exists>self. Attention_init [] 512 8 False None 0 0 2 = Inr self
      \<and> Attention_call shape_tf self [4, 7 * 7 + 1, 512] 7 7 = Inl ValueError)
   \<and> (\<exists>self. Attention_init [] 512 8 False None 0 0 1 = Inr self
      \<and> Attention_call shape_tf self [4, 7 * 7 + 1, 512] 7 7 = Inr [4, 7 * 7 + 1, 512])
   \<and> (\<exists>self. Attention_init [] 4 1 False (Some 1) 0 0 2 = Inr self
      \<and> Attention_call shape_tf self [1, 5, 4] 2 2 = Inr [1, 5, 4]
      \<and> (0::int) < 2 \<and> (2 * 2 :: int) dvd 5 * 4)"
proof (intro conjI)
  have "\<exists>self. Attention_init [] 512 8 False None 0 0 2 = Inr self"
    by (rule Attention_init_ok) simp_all
  then obtain self where init: "Attention_init [] 512 8 False None 0 0 2 = Inr self" ..
  have "Attention_call shape_tf self [4, 7 * 7 + 1, 512] 7 7 = Inl ValueError"
    using Attention_sr_reshape_requirement [OF init, where H = 7 and W = 7 and C = 512 and B = 4]
    by simp
  with init show "\<exists>self. Attention_init [] 512 8 False None 0 0 2 = Inr self
      \<and> Attention_call shape_tf self [4, 7 * 7 + 1, 512] 7 7 = Inl ValueError"
    by blast
next
  have "\<exists>self. Attention_init [] 512 8 False None 0 0 1 = Inr self"
    by (rule Attention_init_ok) simp_all
  then obtain self where init: "Attention_init [] 512 8 False None 0 0 1 = Inr self" ..
  have "Attention_call shape_tf self [4, 7 * 7 + 1, 512] 7 7 = Inr [4, 7 * 7 + 1, 512]"
    using Attention_sr_reshape_requirement [OF init, where H = 7 and W = 7 and B = 4]
    by simp
  with init show "\<exists>self. Attention_init [] 512 8 False None 0 0 1 = Inr self
      \<and> Attention_call shape_tf self [4, 7 * 7 + 1, 512] 7 7 = Inr [4, 7 * 7 + 1, 512]"
    by blast
next
  have "\<exists>self. Attention_init [] 4 1 False (Some 1) 0 0 2 = Inr self"
    by (rule Attention_init_ok) simp_all
  then obtain self where init: "Attention_init [] 4 1 False (Some 1) 0 0 2 = Inr self" ..
  have call: "Attention_call shape_tf self [1, 5, 4] 2 2 = Inr [1, 5, 4]"
    using init by (auto simp: shape_eval)
  have "(0::int) < 2 \<and> (2 * 2 :: int) dvd 5 * 4"
    using Attention_sr_reshape_requirement
      [OF init, where H = 2 and W = 2 and B = 1 and N = 5 and C = 4 and out = "[1, 5, 4]"] call
    by simp
  with init call show "\<exists>self. Attention_init [] 4 1 False (Some 1) 0 0 2 = Inr self
      \<and> Attention_call shape_tf self [1, 5, 4] 2 2 = Inr [1, 5, 4]
      \<and> (0::int) < 2 \<and> (2 * 2 :: int) dvd 5 * 4"
    by blast
qed


section \<open>The transformer block\<close>

lemma trace_tf_sel [simp]:
  "layer_call trace_tf = (\<lambda>l x. Inr (Call l x))"
  "tf_transpose trace_tf = (\<lambda>x perm. Inr (Op ''transpose'' perm [x]))"
  "tf_matmul trace_tf = (\<lambda>a b transpose_b. Inr (Op ''matmul'' [if transpose_b then 1 else 0] [a, b]))"
  "tf_softmax trace_tf = (\<lambda>x. Inr (Op ''softmax'' [] [x]))"
  "op_add trace_tf = (\<lambda>a b. Inr (Op ''add'' [] [a, b]))"
  "op_mul_scalar trace_tf = (\<lambda>a c. Inr (Scale a c))"
  "getitem trace_tf = (\<lambda>x i. Inr (Op ''getitem'' [i] [x]))"
  "call_training trace_tf = None"
  by (simp_all add: trace_tf_def)

text \<open>
  C1 does not hold of the code.  The first block of the default model, on any input and
  read as data flow: with \<open>x'\<close> the input plus the attention of its normalization,
  \<open>Block_call\<close> adds to \<open>x'\<close> the MLP of \<open>x'\<close> itself, where the specification's block adds
  the MLP of \<open>Norm2(x')\<close>; the two results differ.  The first residual is as claimed.
\<close>

theorem Block_call_mlp_input:
  "\<exists>self x'.
      Block_init [] 64 1 4 False None 0 0 0 8 = Inr self
    \<and> bindE (layer_call trace_tf (blk_norm1 self) Input) (\<lambda>n1.
       bindE (Attention_call trace_tf (blk_attention self) n1 56 56) (\<lambda>a.
       op_add trace_tf Input a)) = Inr x'
    \<and> Block_call trace_tf self Input 56 56 =
        bindE (MLP_call trace_tf (blk_mlp self) x' None) (\<lambda>m. op_add trace_tf x' m)
    \<and> Block_preactivation trace_tf self Input 56 56 =
        bindE (MLP_call trace_tf (blk_mlp self) (Call (blk_norm2 self) x') None)
          (\<lambda>m. op_add trace_tf x' m)
    \<and> Block_call trace_tf self Input 56 56 \<noteq> Block_preactivation trace_tf self Input 56 56"
  by (simp add: Block_init_def Attention_init_def MLP_init_def py_mod_def py_floordiv_def
      py_pow_neg_half_def py_int_def Block_call_def Block_preactivation_def Attention_call_def
      MLP_call_def getattr_def)


section \<open>Attention at inference and the attention of the specification\<close>

text \<open>The operations of a framework at inference.\<close>

lemma inference_sel [simp]:
  "layer_call (inference tf) (Dropout r) x = Inr x"
  "layer_call (inference tf) (Dense p u b) = layer_call tf (Dense p u b)"
  "layer_call (inference tf) (Reshape t) = layer_call tf (Reshape t)"
  "layer_call (inference tf) (Conv2D p f k st) = layer_call tf (Conv2D p f k st)"
  "layer_call (inference tf) (LayerNormalization p) = layer_call tf (LayerNormalization p)"
  "layer_call (inference tf) GELU = layer_call tf GELU"
  "tf_transpose (inference tf) = tf_transpose tf"
  "tf_matmul (inference tf) = tf_matmul tf"
  "tf_softmax (inference tf) = tf_softmax tf"
  "op_mul_scalar (inference tf) = op_mul_scalar tf"
  "op_add (inference tf) = op_add tf"
  "getitem (inference tf) = getitem tf"
  "call_training (inference tf) = call_training tf"
  by (simp_all add: inference_def fun_eq_iff)







section \<open>Blocks and stages\<close>

lemma broadcast_rev_same: "broadcast_rev xs xs = Some xs"
  by (induction xs) simp_all

lemma broadcast_shapes_same: "broadcast_shapes s s = Inr s"
  by (simp add: broadcast_shapes_def broadcast_rev_same)

lemma mapE_Inr:
  assumes "mapE f xs = Inr ys"
  shows "list_all2 (\<lambda>x y. f x = Inr y) xs ys"
  using assms
proof (induction xs arbitrary: ys)
  case Nil
  then show ?case by simp
next
  case (Cons x xs)
  then show ?case
    by (auto simp: bindE_eq_Inr)
qed

lemma mapE_ok:
  assumes "\<And>x. x \<in> set xs \<Longrightarrow> \<exists>y. f x = Inr y"
  shows "\<exists>ys. mapE f xs = Inr ys"
  using assms
proof (induction xs)
  case Nil
  then show ?case by simp
next
  case (Cons x xs)
  then obtain y ys where "f x = Inr y" and "mapE f xs = Inr ys"
    by (meson list.set_intros)
  then show ?case by simp
qed

lemma Block_init_Inr:
  assumes "Block_init p dim' num_heads mlp_ratio qkv_bias qk_scale drop' attn_drop proj_drop sr_ratio = Inr blk"
  shows "Attention_init (p @ [Attr ''attention'']) dim' num_heads qkv_bias qk_scale attn_drop
           proj_drop sr_ratio = Inr (blk_attention blk)"
    and "blk_norm1 blk = LayerNormalization (p @ [Attr ''norm1''])"
    and "blk_norm2 blk = LayerNormalization (p @ [Attr ''norm2''])"
    and "blk_mlp blk = MLP_init (p @ [Attr ''mlp'']) (py_int (of_int dim' * mlp_ratio)) dim' drop'"
  using assms by (auto simp: Block_init_def bindE_eq_Inr)

lemma Block_init_ok:
  assumes "0 < dim'" and "0 < num_heads" and "dim' mod num_heads = 0"
  shows "\<exists>blk. Block_init p dim' num_heads mlp_ratio qkv_bias qk_scale drop' attn_drop proj_drop
           sr_ratio = Inr blk"
proof -
  obtain a where "Attention_init (p @ [Attr ''attention'']) dim' num_heads qkv_bias qk_scale attn_drop
           proj_drop sr_ratio = Inr a"
    using Attention_init_ok [OF assms] by blast
  then show ?thesis
    by (simp add: Block_init_def)
qed

lemma MLP_call_shape:
  assumes "0 \<le> hidden" and "0 \<le> out"
  shows "MLP_call shape_tf (MLP_init p hidden out r) [B, N, C] training = Inr [B, N, out]"
  using assms by (simp add: MLP_call_def MLP_init_def Dense_shape_3)

text \<open>A block returns the shape of its attention's result, which is the shape of its input.\<close>

lemma Block_call_shape:
  assumes init: "Block_init p dim' num_heads mlp_ratio qkv_bias qk_scale drop' attn_drop proj_drop
                   sr_ratio = Inr blk"
    and "0 < dim'" and "0 \<le> mlp_ratio"
    and att: "Attention_call shape_tf (blk_attention blk) [B, N, dim'] H W = Inr [B, N, dim']"
  shows "Block_call shape_tf blk [B, N, dim'] H W = Inr [B, N, dim']"
proof -
  note f = Block_init_Inr [OF init]
  have "0 \<le> of_int dim' * mlp_ratio"
    using assms(2,3) by simp
  then have "0 \<le> py_int (of_int dim' * mlp_ratio)"
    by (simp add: py_int_def)
  then have mlp: "MLP_call shape_tf (blk_mlp blk) [B, N, dim'] None = Inr [B, N, dim']"
    unfolding f(4) using assms(2) by (intro MLP_call_shape) simp_all
  show ?thesis
    by (simp add: Block_call_def f(2,3) att mlp broadcast_shapes_same)
qed

lemma run_blocks_shape:
  assumes "\<And>blk. blk \<in> set blks \<Longrightarrow> Block_call shape_tf blk s H W = Inr s"
  shows "run_blocks shape_tf blks s H W = Inr s"
  using assms by (induction blks) simp_all

text \<open>The blocks of a stage are made by \<open>Block_init\<close> with the stage's parameters.\<close>

lemma stage_blocks_Inr:
  assumes "stage_blocks name i embed_dims num_heads mlp_ratios qkv_bias qk_scale drop_rate
             attn_drop_rate depths sr_ratios = Inr blks"
    and "blk \<in> set blks"
  shows "\<exists>j. Block_init [Attr name, Item j] (embed_dims ! i) (num_heads ! i) (mlp_ratios ! i)
           qkv_bias qk_scale drop_rate attn_drop_rate 0 (sr_ratios ! i) = Inr blk"
proof -
  from assms(1) obtain depth where
    m: "mapE (\<lambda>j.
       bindE (py_getitem embed_dims i) (\<lambda>dim'.
       bindE (py_getitem num_heads i) (\<lambda>heads.
       bindE (py_getitem mlp_ratios i) (\<lambda>mlp_ratio.
       bindE (py_getitem sr_ratios i) (\<lambda>sr_ratio.
       Block_init [Attr name, Item j] dim' heads mlp_ratio qkv_bias qk_scale
         drop_rate attn_drop_rate 0 sr_ratio)))))
       (py_range depth) = Inr blks"
    by (auto simp: stage_blocks_def bindE_eq_Inr)
  from mapE_Inr [OF m] assms(2) obtain j where
    "bindE (py_getitem embed_dims i) (\<lambda>dim'.
       bindE (py_getitem num_heads i) (\<lambda>heads.
       bindE (py_getitem mlp_ratios i) (\<lambda>mlp_ratio.
       bindE (py_getitem sr_ratios i) (\<lambda>sr_ratio.
       Block_init [Attr name, Item j] dim' heads mlp_ratio qkv_bias qk_scale
         drop_rate attn_drop_rate 0 sr_ratio)))) = Inr blk"
    by (auto simp: list_all2_conv_all_nth in_set_conv_nth)
  then show ?thesis
    by (auto simp: bindE_eq_Inr py_getitem_def split: if_splits)
qed

lemma stage_blocks_ok:
  assumes "i < length depths" and "i < length embed_dims" and "i < length num_heads"
    and "i < length mlp_ratios" and "i < length sr_ratios"
    and "0 < embed_dims ! i" and "0 < num_heads ! i" and "embed_dims ! i mod num_heads ! i = 0"
  shows "\<exists>blks. stage_blocks name i embed_dims num_heads mlp_ratios qkv_bias qk_scale drop_rate
             attn_drop_rate depths sr_ratios = Inr blks"
  using assms(1-5) unfolding stage_blocks_def
  by (simp add: py_getitem_def) (rule mapE_ok, rule Block_init_ok [OF assms(6-8)])

text \<open>The attention of a constructed object on a sequence it accepts.\<close>

lemma Attention_init_call_shape:
  assumes init: "Attention_init p dim' num_heads qkv_bias qk_scale attn_drop proj_drop sr_ratio = Inr self"
    and "0 < dim'" and "0 < num_heads"
    and ok: "sr_ratio \<le> 1 \<or> (0 < H \<and> 0 < W \<and> H mod sr_ratio = 0 \<and> W mod sr_ratio = 0 \<and> N = H * W)"
  shows "Attention_call shape_tf self [B, N, dim'] H W = Inr [B, N, dim']"
proof -
  define d where "d = dim' div num_heads"
  note f0 = Attention_init_Inr [OF init]
  have dim: "dim' = num_heads * d"
    using f0(2) unfolding d_def by (metis mult_div_mod_eq add.right_neutral)
  have d: "0 < d"
    using assms(2,3) dim by (simp add: zero_less_mult_iff)
  note f = f0 [unfolded d_def [symmetric], unfolded dim]
  show ?thesis
  proof (cases "sr_ratio \<le> 1")
    case True
    then show ?thesis
      unfolding dim
      by (intro Attention_call_shape_full [OF assms(3) d f(4,5,6,7,9,8,10)]) (simp add: f(11))
  next
    case False
    then have sr: "1 < sr_ratio" by simp
    define m where "m = H div sr_ratio"
    define m' where "m' = W div sr_ratio"
    from False ok have H: "H = sr_ratio * m" and W: "W = sr_ratio * m'"
      unfolding m_def m'_def by (metis mult_div_mod_eq add.right_neutral)+
    from False ok sr have "0 < m" and "0 < m'" and N: "N = H * W"
      using H W by (simp_all add: zero_less_mult_iff)
    then show ?thesis
      unfolding N H W dim
      using sr by (intro Attention_call_shape_sr [OF assms(3) d sr _ _ f(4,5,6,7,9,8,10,11)])
        (simp_all add: f(12,13))
  qed
qed

lemma stage_run_blocks_shape:
  assumes blks: "stage_blocks name i embed_dims num_heads mlp_ratios qkv_bias qk_scale drop_rate
             attn_drop_rate depths sr_ratios = Inr blks"
    and "0 < embed_dims ! i" and "0 < num_heads ! i" and "0 \<le> mlp_ratios ! i"
    and ok: "sr_ratios ! i \<le> 1 \<or>
         (0 < H \<and> 0 < W \<and> H mod sr_ratios ! i = 0 \<and> W mod sr_ratios ! i = 0 \<and> N = H * W)"
  shows "run_blocks shape_tf blks [B, N, embed_dims ! i] H W = Inr [B, N, embed_dims ! i]"
proof (rule run_blocks_shape)
  fix blk
  assume "blk \<in> set blks"
  then obtain j where init: "Block_init [Attr name, Item j] (embed_dims ! i) (num_heads ! i)
      (mlp_ratios ! i) qkv_bias qk_scale drop_rate attn_drop_rate 0 (sr_ratios ! i) = Inr blk"
    using stage_blocks_Inr [OF blks] by blast
  show "Block_call shape_tf blk [B, N, embed_dims ! i] H W = Inr [B, N, embed_dims ! i]"
    using Block_call_shape [OF init assms(2,4)]
      Attention_init_call_shape [OF Block_init_Inr(1) [OF init] assms(2,3) ok] by simp
qed

text \<open>The default model, with any number of classes.\<close>

lemma default_blocks_ok:
  assumes "i < 4"
  shows "\<exists>blks. default_blocks name i = Inr blks"
proof -
  have "i = 0 \<or> i = 1 \<or> i = 2 \<or> i = 3"
    using assms by auto
  then show ?thesis
    unfolding default_blocks_def by (elim disjE) (rule stage_blocks_ok; simp)+
qed

lemma PyramidVisionTransformer_default_init:
  assumes "0 \<le> num_classes"
    and "default_blocks ''block1'' 0 = Inr b1" and "default_blocks ''block2'' 1 = Inr b2"
    and "default_blocks ''block3'' 2 = Inr b3" and "default_blocks ''block4'' 3 = Inr b4"
  shows "PyramidVisionTransformer_init shape_tf 224 4 num_classes [64, 128, 256, 512] [1, 2, 4, 8]
        [4, 4, 4, 4] False None 0 0 [3, 4, 6, 3] [8, 4, 2, 1] =
      Inr (default_model num_classes b1 b2 b3 b4 [1, 1, 512])"
  using assms(1) assms(2-5) [unfolded default_blocks_def One_nat_def]
  by (simp add: PyramidVisionTransformer_init_def PatchEmbedding_init_def py_getitem_def
      py_mod_def py_floordiv_def add_weight_shape_def default_model_def)

lemma default_blocks_run:
  assumes "default_blocks name i = Inr blks" and "i < 4"
    and "([8, 4, 2, 1] :: int list) ! i \<le> 1 \<or>
         (0 < H \<and> 0 < W \<and> H mod [8, 4, 2, 1] ! i = 0 \<and> W mod [8, 4, 2, 1] ! i = 0 \<and> N = H * W)"
  shows "run_blocks shape_tf blks [B, N, [64, 128, 256, 512] ! i] H W =
           Inr [B, N, [64, 128, 256, 512] ! i]"
proof -
  have "i = 0 \<or> i = 1 \<or> i = 2 \<or> i = 3"
    using assms(2) by auto
  then have "(0::int) < [64, 128, 256, 512] ! i \<and> (0::int) < [1, 2, 4, 8] ! i
      \<and> (0::real) \<le> [4, 4, 4, 4] ! i"
    by auto
  then show ?thesis
    using stage_run_blocks_shape [OF assms(1) [unfolded default_blocks_def] _ _ _ assms(3)]
    by blast
qed

lemma default_model_stages:
  assumes "default_blocks n1 0 = Inr b1" and "default_blocks n2 1 = Inr b2"
    and "default_blocks n3 2 = Inr b3" and "default_blocks n4 3 = Inr b4"
  shows "run_blocks shape_tf b1 [B, 3136, 64] 56 56 = Inr [B, 3136, 64]"
    and "run_blocks shape_tf b2 [B, 784, 128] 28 28 = Inr [B, 784, 128]"
    and "run_blocks shape_tf b3 [B, 196, 256] 14 14 = Inr [B, 196, 256]"
    and "run_blocks shape_tf b4 [B, 50, 512] 7 7 = Inr [B, 50, 512]"
  using default_blocks_run [OF assms(1), of 56 56 3136 B]
    default_blocks_run [OF assms(2), of 28 28 784 B]
    default_blocks_run [OF assms(3), of 14 14 196 B]
    default_blocks_run [OF assms(4), of 7 7 50 B]
  by simp_all

text \<open>The definitions that evaluate a call of the default model.\<close>

lemmas call_eval =
  PyramidVisionTransformer_call_def default_model_def py_getitem_def PatchEmbedding_call_def
  Conv2D_shape_def Reshape_shape_def fix_unknown_dimension_def broadcast_shapes_def
  py_getitem_last_def broadcast_to_shape_def concat_axis_def getitem_colon_shape_def
  Dense_shape_def Let_def

lemma default_model_call:
  assumes "default_blocks n1 0 = Inr b1" and "default_blocks n2 1 = Inr b2"
    and "default_blocks n3 2 = Inr b3" and "default_blocks n4 3 = Inr b4"
    and "0 < B" and "0 \<le> num_classes" and "b = 1 \<or> b = B"
  shows "PyramidVisionTransformer_call shape_tf (default_model num_classes b1 b2 b3 b4 [b, 1, 512])
           [B, 224, 224, 3] =
         Inr ([B, num_classes], default_model num_classes b1 b2 b3 b4 [B, 1, 512])"
  using assms(5-7)
  by (auto simp: call_eval default_model_stages [OF assms(1-4)])

lemma default_model_call_fails:
  assumes "default_blocks n1 0 = Inr b1" and "default_blocks n2 1 = Inr b2"
    and "default_blocks n3 2 = Inr b3" and "default_blocks n4 3 = Inr b4"
    and "b \<noteq> 1" and "b \<noteq> B"
  shows "PyramidVisionTransformer_call shape_tf (default_model num_classes b1 b2 b3 b4 [b, 1, 512])
           [B, 224, 224, 3] = Inl InvalidArgumentError"
  using assms(5,6)
  by (auto simp: call_eval default_model_stages [OF assms(1-4)])


section \<open>The model\<close>

lemma PyramidVisionTransformer_init_Inr:
  assumes "PyramidVisionTransformer_init tf img_size patch_size num_classes embed_dims num_heads
      mlp_ratios qkv_bias qk_scale drop_rate attn_drop_rate depths sr_ratios = Inr m"
  shows "pvt_num_classes m = num_classes"
    and "pvt_dense m = Dense [Attr ''dense''] num_classes True"
    and "4 \<le> length embed_dims"
    and "PatchEmbedding_init [Attr ''patch_embed1''] img_size patch_size (embed_dims ! 0) =
           Inr (pvt_patch_embed1 m)"
    and "PatchEmbedding_init [Attr ''patch_embed2''] (img_size div 4) 2 (embed_dims ! 1) =
           Inr (pvt_patch_embed2 m)"
    and "PatchEmbedding_init [Attr ''patch_embed3''] (img_size div 8) 2 (embed_dims ! 2) =
           Inr (pvt_patch_embed3 m)"
    and "PatchEmbedding_init [Attr ''patch_embed4''] (img_size div 16) 2 (embed_dims ! 3) =
           Inr (pvt_patch_embed4 m)"
  using assms
  by (auto simp: PyramidVisionTransformer_init_def bindE_eq_Inr py_getitem_def split: if_splits)

lemma PatchEmbedding_init_Inr:
  assumes "PatchEmbedding_init p img_size patch_size embedding_dim = Inr self"
  shows "patch_size \<noteq> 0" and "img_size mod patch_size = 0"
    and "pe_img_size self = img_size" and "pe_patch_size self = patch_size"
    and "pe_embedding_dim self = embedding_dim"
    and "pe_H self = img_size div patch_size" and "pe_W self = img_size div patch_size"
    and "pe_num_patches self = (img_size div patch_size) * (img_size div patch_size)"
  using assms
  by (auto simp: PatchEmbedding_init_def py_mod_def py_floordiv_def bindE_eq_Inr split: if_splits)

lemma PyramidVisionTransformer_call_Inr:
  assumes "PyramidVisionTransformer_call tf self inputs = Inr (out, self')"
  shows "\<exists>c. layer_call tf (pvt_dense self) c = Inr out"
    and "\<exists>B c. tf_broadcast_to tf (pvt_cls_token self) [B, 1, c] = Inr (pvt_cls_token self')"
    and "self' = self\<lparr>pvt_cls_token := pvt_cls_token self'\<rparr>"
  using assms
  by (auto simp: PyramidVisionTransformer_call_def bindE_eq_Inr split: prod.splits) blast

lemma default_blocks_all:
  "\<exists>b1 b2 b3 b4. default_blocks ''block1'' 0 = Inr b1 \<and> default_blocks ''block2'' 1 = Inr b2
     \<and> default_blocks ''block3'' 2 = Inr b3 \<and> default_blocks ''block4'' 3 = Inr b4"
proof -
  have "\<exists>b. default_blocks ''block1'' 0 = Inr b"
    by (rule default_blocks_ok) simp
  moreover have "\<exists>b. default_blocks ''block2'' 1 = Inr b"
    by (rule default_blocks_ok) simp
  moreover have "\<exists>b. default_blocks ''block3'' 2 = Inr b"
    by (rule default_blocks_ok) simp
  moreover have "\<exists>b. default_blocks ''block4'' 3 = Inr b"
    by (rule default_blocks_ok) simp
  ultimately show ?thesis
    by blast
qed

text \<open>
  C7.  For every positive batch size \<open>B\<close> and every \<open>num_classes \<ge> 0\<close>, the model constructed
  with the default configuration returns on a batch of shape \<open>(B, 224, 224, 3)\<close> predictions
  of shape \<open>(B, num_classes)\<close>; and whatever the configuration and the input, the
  predictions that a call of a constructed model returns have \<open>num_classes\<close> as their last
  dimension.  The witness is the batch of 4 images and 1000 classes.
\<close>

theorem PyramidVisionTransformer_output_shape:
  assumes "0 < B" and "0 \<le> num_classes"
  shows "(\<exists>m m'. PyramidVisionTransformer_init shape_tf 224 4 num_classes [64, 128, 256, 512]
              [1, 2, 4, 8] [4, 4, 4, 4] False None 0 0 [3, 4, 6, 3] [8, 4, 2, 1] = Inr m
           \<and> PyramidVisionTransformer_call shape_tf m [B, 224, 224, 3] = Inr ([B, num_classes], m'))
       \<and> (PyramidVisionTransformer_init shape_tf img_size patch_size num_classes embed_dims
              num_heads mlp_ratios qkv_bias qk_scale drop_rate attn_drop_rate depths sr_ratios = Inr M
            \<and> PyramidVisionTransformer_call shape_tf M x = Inr (out, M')
            \<longrightarrow> out \<noteq> [] \<and> last out = num_classes)"
proof (rule conjI)
  obtain b1 b2 b3 b4 where
    b: "default_blocks ''block1'' 0 = Inr b1" "default_blocks ''block2'' 1 = Inr b2"
      "default_blocks ''block3'' 2 = Inr b3" "default_blocks ''block4'' 3 = Inr b4"
    using default_blocks_all by blast
  show "\<exists>m m'. PyramidVisionTransformer_init shape_tf 224 4 num_classes [64, 128, 256, 512]
              [1, 2, 4, 8] [4, 4, 4, 4] False None 0 0 [3, 4, 6, 3] [8, 4, 2, 1] = Inr m
           \<and> PyramidVisionTransformer_call shape_tf m [B, 224, 224, 3] = Inr ([B, num_classes], m')"
    using PyramidVisionTransformer_default_init [OF assms(2) b]
      default_model_call [OF b assms, of 1] by blast
next
  show "PyramidVisionTransformer_init shape_tf img_size patch_size num_classes embed_dims
              num_heads mlp_ratios qkv_bias qk_scale drop_rate attn_drop_rate depths sr_ratios = Inr M
            \<and> PyramidVisionTransformer_call shape_tf M x = Inr (out, M')
            \<longrightarrow> out \<noteq> [] \<and> last out = num_classes"
  proof (rule impI)
  assume a: "PyramidVisionTransformer_init shape_tf img_size patch_size num_classes embed_dims
              num_heads mlp_ratios qkv_bias qk_scale drop_rate attn_drop_rate depths sr_ratios = Inr M
            \<and> PyramidVisionTransformer_call shape_tf M x = Inr (out, M')"
  from a have i: "PyramidVisionTransformer_init shape_tf img_size patch_size num_classes embed_dims
              num_heads mlp_ratios qkv_bias qk_scale drop_rate attn_drop_rate depths sr_ratios = Inr M"
    and c: "PyramidVisionTransformer_call shape_tf M x = Inr (out, M')"
    by simp_all
  obtain c where "layer_call shape_tf (pvt_dense M) c = Inr out"
    using PyramidVisionTransformer_call_Inr(1) [OF c] by blast
  then have "Dense_shape num_classes c = Inr out"
    by (simp add: PyramidVisionTransformer_init_Inr(2) [OF i])
  then show "out \<noteq> [] \<and> last out = num_classes"
    by (auto simp: Dense_shape_def split: if_splits)
  qed
qed

theorem PyramidVisionTransformer_output_shape_witness:
  "\<exists>m m'. PyramidVisionTransformer_default shape_tf = Inr m
     \<and> PyramidVisionTransformer_call shape_tf m [4, 224, 224, 3] = Inr ([4, 1000], m')
     \<and> [4, 1000 :: int] \<noteq> [] \<and> last [4, 1000 :: int] = 1000"
proof -
  have "\<exists>m m'. PyramidVisionTransformer_init shape_tf 224 4 1000 [64, 128, 256, 512]
              [1, 2, 4, 8] [4, 4, 4, 4] False None 0 0 [3, 4, 6, 3] [8, 4, 2, 1] = Inr m
           \<and> PyramidVisionTransformer_call shape_tf m [4, 224, 224, 3] = Inr ([4, 1000], m')"
    using PyramidVisionTransformer_output_shape [of 4 1000, THEN conjunct1] by simp
  then obtain m m' where init: "PyramidVisionTransformer_init shape_tf 224 4 1000 [64, 128, 256, 512]
              [1, 2, 4, 8] [4, 4, 4, 4] False None 0 0 [3, 4, 6, 3] [8, 4, 2, 1] = Inr m"
    and call: "PyramidVisionTransformer_call shape_tf m [4, 224, 224, 3] = Inr ([4, 1000], m')"
    by blast
  have "[4, 1000 :: int] \<noteq> [] \<and> last [4, 1000 :: int] = 1000"
    using PyramidVisionTransformer_output_shape
      [of 4 1000, THEN conjunct2, THEN mp, OF _ _ conjI [OF init call]]
    by simp
  with init call show ?thesis
    unfolding PyramidVisionTransformer_default_def by blast
qed

text \<open>
  C2 does not hold of the code.  The default model holds a class token of shape
  \<open>(1, 1, 512)\<close>; a call on a batch of 4 images returns the object with \<open>cls_token\<close> replaced by
  its broadcast of shape \<open>(4, 1, 512)\<close> (every other attribute is unchanged), and a further
  call on a batch of 2 images raises, since \<open>(4, 1, 512)\<close> does not broadcast to
  \<open>(2, 1, 512)\<close>.
\<close>

theorem PyramidVisionTransformer_call_reassigns_cls_token:
  "\<exists>m out m'. PyramidVisionTransformer_default shape_tf = Inr m
     \<and> PyramidVisionTransformer_call shape_tf m [4, 224, 224, 3] = Inr (out, m')
     \<and> pvt_cls_token m = [1, 1, 512]
     \<and> pvt_cls_token m' = [4, 1, 512]
     \<and> m' = m\<lparr>pvt_cls_token := [4, 1, 512]\<rparr>
     \<and> m' \<noteq> m
     \<and> PyramidVisionTransformer_call shape_tf m' [2, 224, 224, 3] = Inl InvalidArgumentError"
proof -
  obtain b1 b2 b3 b4 where
    b: "default_blocks ''block1'' 0 = Inr b1" "default_blocks ''block2'' 1 = Inr b2"
      "default_blocks ''block3'' 2 = Inr b3" "default_blocks ''block4'' 3 = Inr b4"
    using default_blocks_all by blast
  have init: "PyramidVisionTransformer_default shape_tf = Inr (default_model 1000 b1 b2 b3 b4 [1, 1, 512])"
    unfolding PyramidVisionTransformer_default_def
    by (rule PyramidVisionTransformer_default_init [OF _ b]) simp
  have call: "PyramidVisionTransformer_call shape_tf (default_model 1000 b1 b2 b3 b4 [1, 1, 512])
      [4, 224, 224, 3] = Inr ([4, 1000], default_model 1000 b1 b2 b3 b4 [4, 1, 512])"
    by (rule default_model_call [OF b]) simp_all
  have again: "PyramidVisionTransformer_call shape_tf (default_model 1000 b1 b2 b3 b4 [4, 1, 512])
      [2, 224, 224, 3] = Inl InvalidArgumentError"
    by (rule default_model_call_fails [OF b]) simp_all
  have upd: "default_model 1000 b1 b2 b3 b4 [4, 1, 512] =
      (default_model 1000 b1 b2 b3 b4 [1, 1, 512])\<lparr>pvt_cls_token := [4, 1, 512]\<rparr>"
    and cls: "pvt_cls_token (default_model 1000 b1 b2 b3 b4 c) = c" for c
    by (simp_all add: default_model_def)
  have ne: "default_model 1000 b1 b2 b3 b4 [4, 1, 512] \<noteq> default_model 1000 b1 b2 b3 b4 [1, 1, 512]"
    by (simp add: default_model_def)
  show ?thesis
    apply (rule exI [of _ "default_model 1000 b1 b2 b3 b4 [1, 1, 512]"])
    apply (rule exI [of _ "[4, 1000]"])
    apply (rule exI [of _ "default_model 1000 b1 b2 b3 b4 [4, 1, 512]"])
    using init call again upd ne by (simp add: cls)
qed

text \<open>An integer whose floor quotients by 4, 8 and 16 are even.\<close>

lemma floor_halvings:
  fixes n :: int
  assumes "n div 4 mod 2 = 0" and "n div 8 mod 2 = 0" and "n div 16 mod 2 = 0"
  shows "n mod 32 < 4"
proof -
  define q where "q = n div 4"
  have 8: "n div 8 = q div 2" and 16: "n div 16 = q div 4"
    unfolding q_def by (simp_all add: zdiv_zmult2_eq [symmetric])
  have "q mod 8 = 0"
    using assms unfolding 8 16 q_def [symmetric] by presburger
  then obtain c where c: "q = 8 * c"
    by (metis mod_eq_0_iff_dvd dvd_def)
  have "n = 4 * q + n mod 4"
    unfolding q_def by simp
  then have "n = 32 * c + n mod 4"
    using c by simp
  then have "n mod 32 = (n mod 4) mod 32"
    by (metis mod_mult_self4)
  also have "\<dots> = n mod 4"
    by (simp add: mod_pos_pos_trivial)
  finally show ?thesis
    by simp
qed

text \<open>
  C9, as amended.  Whenever the constructor returns a model, in every framework: the patch
  embeddings of stages 2, 3 and 4 are those of patch size 2 over the sizes \<open>img_size // 4\<close>,
  \<open>img_size // 8\<close> and \<open>img_size // 16\<close>, whatever \<open>patch_size\<close> is, and only stage 1 has
  \<open>patch_size\<close>; \<open>img_size % patch_size = 0\<close>, and the three floor quotients are even, that
  is \<open>img_size mod 32 < 4\<close>.
\<close>

theorem PyramidVisionTransformer_stage_patch_sizes:
  assumes "PyramidVisionTransformer_init tf img_size patch_size num_classes embed_dims num_heads
      mlp_ratios qkv_bias qk_scale drop_rate attn_drop_rate depths sr_ratios = Inr m"
  shows "PatchEmbedding_init [Attr ''patch_embed1''] img_size patch_size (embed_dims ! 0) =
           Inr (pvt_patch_embed1 m)
       \<and> PatchEmbedding_init [Attr ''patch_embed2''] (img_size div 4) 2 (embed_dims ! 1) =
           Inr (pvt_patch_embed2 m)
       \<and> PatchEmbedding_init [Attr ''patch_embed3''] (img_size div 8) 2 (embed_dims ! 2) =
           Inr (pvt_patch_embed3 m)
       \<and> PatchEmbedding_init [Attr ''patch_embed4''] (img_size div 16) 2 (embed_dims ! 3) =
           Inr (pvt_patch_embed4 m)
       \<and> pe_patch_size (pvt_patch_embed1 m) = patch_size
       \<and> pe_img_size (pvt_patch_embed1 m) = img_size
       \<and> pe_patch_size (pvt_patch_embed2 m) = 2
       \<and> pe_img_size (pvt_patch_embed2 m) = img_size div 4
       \<and> pe_patch_size (pvt_patch_embed3 m) = 2
       \<and> pe_img_size (pvt_patch_embed3 m) = img_size div 8
       \<and> pe_patch_size (pvt_patch_embed4 m) = 2
       \<and> pe_img_size (pvt_patch_embed4 m) = img_size div 16
       \<and> patch_size \<noteq> 0 \<and> img_size mod patch_size = 0
       \<and> (img_size div 4) mod 2 = 0 \<and> (img_size div 8) mod 2 = 0 \<and> (img_size div 16) mod 2 = 0
       \<and> img_size mod 32 < 4"
proof -
  note i = PyramidVisionTransformer_init_Inr [OF assms]
  note p1 = PatchEmbedding_init_Inr [OF i(4)]
  note p2 = PatchEmbedding_init_Inr [OF i(5)]
  note p3 = PatchEmbedding_init_Inr [OF i(6)]
  note p4 = PatchEmbedding_init_Inr [OF i(7)]
  have "img_size mod 32 < 4"
    using p2(2) p3(2) p4(2) by (rule floor_halvings)
  then show ?thesis
    using i(4-7) p1(1-4) p2(2-4) p3(2-4) p4(2-4) by simp
qed

theorem PyramidVisionTransformer_stage_patch_sizes_witness:
  "\<exists>m. PyramidVisionTransformer_default shape_tf = Inr m
     \<and> pe_patch_size (pvt_patch_embed1 m) = 4 \<and> pe_img_size (pvt_patch_embed1 m) = 224
     \<and> pe_patch_size (pvt_patch_embed2 m) = 2 \<and> pe_img_size (pvt_patch_embed2 m) = 56
     \<and> pe_patch_size (pvt_patch_embed3 m) = 2 \<and> pe_img_size (pvt_patch_embed3 m) = 28
     \<and> pe_patch_size (pvt_patch_embed4 m) = 2 \<and> pe_img_size (pvt_patch_embed4 m) = 14
     \<and> (224 :: int) mod 4 = 0 \<and> (224 :: int) mod 32 < 4"
proof -
  obtain b1 b2 b3 b4 where
    b: "default_blocks ''block1'' 0 = Inr b1" "default_blocks ''block2'' 1 = Inr b2"
      "default_blocks ''block3'' 2 = Inr b3" "default_blocks ''block4'' 3 = Inr b4"
    using default_blocks_all by blast
  have init: "PyramidVisionTransformer_init shape_tf 224 4 1000 [64, 128, 256, 512]
              [1, 2, 4, 8] [4, 4, 4, 4] False None 0 0 [3, 4, 6, 3] [8, 4, 2, 1] =
      Inr (default_model 1000 b1 b2 b3 b4 [1, 1, 512])"
    by (rule PyramidVisionTransformer_default_init [OF _ b]) simp
  show ?thesis
    unfolding PyramidVisionTransformer_default_def
    using init PyramidVisionTransformer_stage_patch_sizes [OF init] by simp
qed

text \<open>
  C9 as stated fails: the constructor returns a model for \<open>img_size = 33\<close> and
  \<open>patch_size = 3\<close> (33 is a multiple of 3, and 33 // 4 = 8, 33 // 8 = 4 and 33 // 16 = 2
  are even), and 33 is not divisible by 8.
\<close>

theorem PyramidVisionTransformer_img_size_counterexample:
  "\<not> isl (PyramidVisionTransformer_init shape_tf 33 3 1000 [64, 128, 256, 512] [1, 2, 4, 8]
            [4, 4, 4, 4] False None 0 0 [3, 4, 6, 3] [8, 4, 2, 1])
   \<and> (33 :: int) mod 3 = 0 \<and> \<not> (8 :: int) dvd 33"
proof -
  obtain b1 b2 b3 b4 where
    b: "default_blocks ''block1'' 0 = Inr b1" "default_blocks ''block2'' 1 = Inr b2"
      "default_blocks ''block3'' 2 = Inr b3" "default_blocks ''block4'' 3 = Inr b4"
    using default_blocks_all by blast
  show ?thesis
    using b [unfolded default_blocks_def One_nat_def]
    by (simp add: PyramidVisionTransformer_init_def PatchEmbedding_init_def py_getitem_def
        py_mod_def py_floordiv_def add_weight_shape_def)
qed

text \<open>
  C3 does not hold of the code.  The constructor of the \<open>Attention\<close> of model.py takes 10
  features and 3 heads without raising and stores \<open>project_dim = 3\<close>; the call then
  returns on an input of shape \<open>(1, 9, 30)\<close> and raises on one of shape \<open>(1, 4, 30)\<close>, at
  call time.  The constructors of the \<open>Attention\<close> and the \<open>PatchEmbedding\<close> of pvt.py raise
  \<open>AssertionError\<close> on the same numbers.
\<close>

theorem Attention_divisibility_check:
  "ViT_Attention_init 10 3 =
     Inr \<lparr> vit_num_features = 10, vit_num_heads = 3, vit_project_dim = 3 \<rparr>
   \<and> ViT_Attention_call shape_tf
       \<lparr> vit_num_features = 10, vit_num_heads = 3, vit_project_dim = 3 \<rparr> [1, 9, 30] =
     Inr [1, 9, 10]
   \<and> ViT_Attention_call shape_tf
       \<lparr> vit_num_features = 10, vit_num_heads = 3, vit_project_dim = 3 \<rparr> [1, 4, 30] =
     Inl InvalidArgumentError
   \<and> Attention_init [] 10 3 False None 0 0 1 = Inl AssertionError
   \<and> PatchEmbedding_init [] 10 3 64 = Inl AssertionError"
  by (simp add: ViT_Attention_init_def ViT_Attention_call_def py_floordiv_def py_mod_def
      py_getitem_def tf_reshape_shape_def fix_unknown_dimension_def transpose_shape_def
      getitem_shape_def matmul_shape_def broadcast_shapes_def Attention_init_def
      PatchEmbedding_init_def Let_def)

end
